theory Spec2Isabelle
  imports Main
begin

section \<open>Python values and string primitives used by elm.py\<close>

text \<open>
  Strings are lists of characters; the commands of an ELM327 session are ASCII, and
  the case mapping below is the ASCII part of \<^verbatim>\<open>str.upper\<close>.
\<close>

datatype exn = TypeError | ValueError | AttributeError | KeyError

definition ord :: "char \<Rightarrow> nat" where
  "ord c = of_char c"

definition is_digit :: "char \<Rightarrow> bool" where
  "is_digit c = (48 \<le> ord c \<and> ord c \<le> 57)"

definition is_lower :: "char \<Rightarrow> bool" where
  "is_lower c = (97 \<le> ord c \<and> ord c \<le> 122)"

definition is_upper :: "char \<Rightarrow> bool" where
  "is_upper c = (65 \<le> ord c \<and> ord c \<le> 90)"

definition is_hexdigit :: "char \<Rightarrow> bool" where
  "is_hexdigit c = (is_digit c \<or> (97 \<le> ord c \<and> ord c \<le> 102) \<or> (65 \<le> ord c \<and> ord c \<le> 70))"

definition is_space :: "char \<Rightarrow> bool" where
  \<comment> \<open>\<^verbatim>\<open>string.whitespace\<close>, which is also what \<^verbatim>\<open>Py_ISSPACE\<close> accepts:
      space, tab, newline, carriage return, vertical tab, form feed\<close>
  "is_space c = (ord c = 32 \<or> (9 \<le> ord c \<and> ord c \<le> 13))"

definition upper_char :: "char \<Rightarrow> char" where
  "upper_char c = (if is_lower c then char_of (ord c - 32) else c)"

definition upper :: "string \<Rightarrow> string" where
  "upper s = map upper_char s"

definition hexval :: "char \<Rightarrow> nat" where
  "hexval c = (if is_digit c then ord c - 48 else if is_lower c then ord c - 87 else ord c - 55)"

definition hexdigit :: "nat \<Rightarrow> char" where
  \<comment> \<open>the upper-case digit of a value below 16\<close>
  "hexdigit d = (if d < 10 then char_of (48 + d) else char_of (55 + d))"

fun to_hex :: "nat \<Rightarrow> string" where
  "to_hex n = (if n < 16 then [hexdigit n] else to_hex (n div 16) @ [hexdigit (n mod 16)])"

definition hex_from2_upper :: "int \<Rightarrow> string" where
  \<comment> \<open>\<^verbatim>\<open>hex(n)[2:].upper()\<close>: \<^verbatim>\<open>hex\<close> of a negative number is \<^verbatim>\<open>-0x...\<close>,
      whose slice from 2 starts at the \<^verbatim>\<open>x\<close>\<close>
  "hex_from2_upper n = (if 0 \<le> n then to_hex (nat n) else CHR ''X'' # to_hex (nat (- n)))"

definition fmt_02X :: "nat \<Rightarrow> string" where
  \<comment> \<open>\<^verbatim>\<open>"%02X" % n\<close> and \<^verbatim>\<open>'{:02x}'.format(n).upper()\<close> for \<^verbatim>\<open>n >= 0\<close>\<close>
  "fmt_02X n = (if n < 16 then CHR ''0'' # to_hex n else to_hex n)"

fun join :: "string \<Rightarrow> string list \<Rightarrow> string" where
  "join sep [] = []"
| "join sep [x] = x"
| "join sep (x # y # ys) = x @ sep @ join sep (y # ys)"

fun fromhex :: "string \<Rightarrow> nat list option" where
  \<comment> \<open>\<^verbatim>\<open>bytearray.fromhex\<close>: white space is skipped between bytes, a byte is two
      adjacent hexadecimal digits; \<open>None\<close> is the \<^verbatim>\<open>ValueError\<close>\<close>
  "fromhex [] = Some []"
| "fromhex [c] = (if is_space c then Some [] else None)"
| "fromhex (c # d # ds) =
     (if is_space c then fromhex (d # ds)
      else if is_hexdigit c \<and> is_hexdigit d
        then map_option ((#) (16 * hexval c + hexval d)) (fromhex ds)
      else None)"

definition int_space :: "char \<Rightarrow> bool" where
  \<comment> \<open>the white space that \<^verbatim>\<open>int()\<close> strips from both ends of a string\<close>
  "int_space c = (is_space c \<or> ord c = 133 \<or> ord c = 160)"

fun int_digits :: "nat \<Rightarrow> string \<Rightarrow> nat \<Rightarrow> bool \<Rightarrow> nat option" where
  \<comment> \<open>digits of the base (10 or 16), single underscores allowed between two digits\<close>
  "int_digits base [] acc after_digit = (if after_digit then Some acc else None)"
| "int_digits base (c # cs) acc after_digit =
     (if is_hexdigit c \<and> hexval c < base then int_digits base cs (base * acc + hexval c) True
      else if c = CHR ''_'' \<and> after_digit then int_digits base cs acc False
      else None)"

definition int_unsigned16 :: "string \<Rightarrow> nat option" where
  "int_unsigned16 s =
     (case s of
        a # b # rest \<Rightarrow>
          if a = CHR ''0'' \<and> (b = CHR ''x'' \<or> b = CHR ''X'')
          then (case rest of
                  u # rest' \<Rightarrow> if u = CHR ''_'' then int_digits 16 rest' 0 False
                                else int_digits 16 rest 0 False
                | [] \<Rightarrow> None)
          else int_digits 16 s 0 False
      | _ \<Rightarrow> int_digits 16 s 0 False)"

definition int16 :: "string \<Rightarrow> int option" where
  \<comment> \<open>\<^verbatim>\<open>int(s, 16)\<close>; \<open>None\<close> is the \<^verbatim>\<open>ValueError\<close>\<close>
  "int16 s0 =
     (let s = rev (dropWhile int_space (rev (dropWhile int_space s0)))
      in case s of
           [] \<Rightarrow> None
         | c # cs \<Rightarrow>
             if c = CHR ''-'' then map_option (\<lambda>n. - int n) (int_unsigned16 cs)
             else if c = CHR ''+'' then map_option int (int_unsigned16 cs)
             else map_option int (int_unsigned16 s))"

definition int10 :: "string \<Rightarrow> int option" where
  \<comment> \<open>\<^verbatim>\<open>int(s)\<close> of a string\<close>
  "int10 s0 =
     (let s = rev (dropWhile int_space (rev (dropWhile int_space s0)))
      in case s of
           [] \<Rightarrow> None
         | c # cs \<Rightarrow>
             if c = CHR ''-'' then map_option (\<lambda>n. - int n) (int_digits 10 cs 0 False)
             else if c = CHR ''+'' then map_option int (int_digits 10 cs 0 False)
             else map_option int (int_digits 10 s 0 False))"

definition slice_to :: "string \<Rightarrow> int \<Rightarrow> string" where
  \<comment> \<open>\<^verbatim>\<open>s[:n]\<close>; a negative \<^verbatim>\<open>n\<close> counts from the end\<close>
  "slice_to s n = (if 0 \<le> n then take (nat n) s else take (length s - nat (- n)) s)"

datatype pyval = PNone | PBool bool | PInt int | PStr string

fun truthy :: "pyval \<Rightarrow> bool" where
  "truthy PNone = False"
| "truthy (PBool b) = b"
| "truthy (PInt n) = (n \<noteq> 0)"
| "truthy (PStr s) = (s \<noteq> [])"

fun py_eq :: "pyval \<Rightarrow> pyval \<Rightarrow> bool" where
  \<comment> \<open>\<^verbatim>\<open>==\<close>: a bool is the integer 0 or 1\<close>
  "py_eq (PBool a) (PInt n) = ((if a then 1 else 0) = n)"
| "py_eq (PInt n) (PBool a) = ((if a then 1 else 0) = n)"
| "py_eq a b = (a = b)"

fun py_incr :: "pyval \<Rightarrow> exn + pyval" where
  \<comment> \<open>\<^verbatim>\<open>v + 1\<close>\<close>
  "py_incr (PInt n) = Inr (PInt (n + 1))"
| "py_incr (PBool b) = Inr (PInt ((if b then 1 else 0) + 1))"
| "py_incr _ = Inl TypeError"

fun py_gt_int :: "pyval \<Rightarrow> int \<Rightarrow> exn + bool" where
  \<comment> \<open>\<^verbatim>\<open>v > n\<close> for an integer \<^verbatim>\<open>n\<close>\<close>
  "py_gt_int (PInt m) n = Inr (n < m)"
| "py_gt_int (PBool b) n = Inr (n < (if b then 1 else 0))"
| "py_gt_int _ n = Inl TypeError"

type_synonym counters = "string \<rightharpoonup> pyval"

datatype logev = LogError string | LogWarning string | LogInfo string | LogCritical string

section \<open>The patterns given to \<^verbatim>\<open>re.match\<close>\<close>

text \<open>
  The patterns written in elm.py are sequences of character classes, each taken once or
  under a star, with an optional end anchor. \<^verbatim>\<open>re.match\<close> anchors the match at the
  start of the string and succeeds when some prefix matches; a match object is always
  truthy, also when the matched prefix is empty. The anchor \<^verbatim>\<open>$\<close> holds at the end
  of the string and just before a newline that ends the string.
\<close>

datatype quant = Once | Star

type_synonym pattern = "((char \<Rightarrow> bool) \<times> quant) list \<times> bool"

fun match_items :: "((char \<Rightarrow> bool) \<times> quant) list \<Rightarrow> bool \<Rightarrow> string \<Rightarrow> bool" where
  "match_items [] anchored s = (if anchored then s = [] \<or> s = [CHR 0x0A] else True)"
| "match_items ((cls, Once) # items) anchored s =
     (case s of [] \<Rightarrow> False | c # cs \<Rightarrow> cls c \<and> match_items items anchored cs)"
| "match_items ((cls, Star) # items) anchored s =
     ((case s of [] \<Rightarrow> False | c # cs \<Rightarrow> cls c \<and> match_items ((cls, Star) # items) anchored cs)
      \<or> match_items items anchored s)"

definition re_match :: "pattern \<Rightarrow> string \<Rightarrow> bool" where
  \<comment> \<open>truthiness of \<^verbatim>\<open>re.match(pattern, s)\<close>\<close>
  "re_match p s = match_items (fst p) (snd p) s"

definition ELM_VALID_CHARS :: pattern where
  \<comment> \<open>\<^verbatim>\<open>r"[a-zA-Z0-9 \n\r]*"\<close>\<close>
  "ELM_VALID_CHARS =
     ([(\<lambda>c. is_lower c \<or> is_upper c \<or> is_digit c \<or> ord c = 32 \<or> ord c = 10 \<or> ord c = 13, Star)],
      False)"

definition validate :: "string \<Rightarrow> bool" where
  "validate cmd = (if \<not> re_match ELM_VALID_CHARS cmd then False else True)"

definition hex_sp_pattern :: pattern where
  \<comment> \<open>\<^verbatim>\<open>r"^[0-9a-fA-F \t\r\n]*$"\<close>\<close>
  "hex_sp_pattern =
     ([(\<lambda>c. is_hexdigit c \<or> ord c = 32 \<or> ord c = 9 \<or> ord c = 13 \<or> ord c = 10, Star)], True)"

definition is_hex_sp :: "string \<Rightarrow> bool" where
  "is_hex_sp s = re_match hex_sp_pattern s"

definition len_hex :: "string \<Rightarrow> nat" where
  \<comment> \<open>the number of bytes, or \<^verbatim>\<open>False\<close> (which is 0 in Python) when
      \<^verbatim>\<open>bytearray.fromhex\<close> raises\<close>
  "len_hex s = (case fromhex s of None \<Rightarrow> 0 | Some bs \<Rightarrow> length bs)"

section \<open>The UDS encoder\<close>

definition strip_upper :: "string \<Rightarrow> string" where
  \<comment> \<open>\<^verbatim>\<open>h.translate(h.maketrans('', '', string.whitespace)).upper()\<close>\<close>
  "strip_upper h = upper (filter (\<lambda>c. \<not> is_space c) h)"

definition checksum :: "string \<Rightarrow> string option" where
  \<comment> \<open>\<^verbatim>\<open>" %02X" % (sum(bytearray.fromhex(answer)) % 256)\<close>\<close>
  "checksum answer =
     (case fromhex answer of
        None \<Rightarrow> None
      | Some bs \<Rightarrow> Some (CHR '' '' # fmt_02X (sum_list bs mod 256)))"

definition uds_answer ::
  "counters \<Rightarrow> string \<Rightarrow> pyval \<Rightarrow> bool \<Rightarrow> string \<Rightarrow> string option
     \<Rightarrow> exn + (string \<times> logev list)" where
  "uds_answer cs data request_header use_headers sp flow_control =
     (let request_header =
            (if request_header = PNone \<and> cs ''cmd_set_header'' \<noteq> None
             then the (cs ''cmd_set_header'') else request_header)
      in case request_header of
           PStr h0 \<Rightarrow>
             (let h = strip_upper h0 in
              if h = [] then Inr ([], [LogError ''Invalid request header; request %s''])
              else case fromhex data of
                None \<Rightarrow> Inr ([], [LogError ''Invalid data in answer: %s''])
              | Some bs \<Rightarrow>
                 (let len = length bs;
                      data = upper (join sp (map fmt_02X bs))
                  in if length h = 3 \<and> flow_control \<noteq> None \<and> flow_control \<noteq> Some [] then
                       (if use_headers then
                          (case int16 h of
                             None \<Rightarrow> Inl ValueError
                           | Some n \<Rightarrow>
                               Inr (hex_from2_upper (n + 8) @ sp @ the flow_control @ sp @ data, []))
                        else Inr (the flow_control @ sp @ data, []))
                     else if length h = 3 then
                       (if use_headers then
                          (case int16 h of
                             None \<Rightarrow> Inl ValueError
                           | Some n \<Rightarrow>
                               Inr (hex_from2_upper (n + 8) @ sp @ fmt_02X len @ sp @ data, []))
                        else Inr (data, []))
                     else if length h = 6 \<and> flow_control \<noteq> None \<and> flow_control \<noteq> Some [] then
                       Inr ([], [LogError ''Unimplemented flow control.''])
                     else if length h = 6 then
                       (if \<not> use_headers then Inr ([], [LogError ''Unimplemented case.''])
                        else
                          (let answer =
                                 (if len < 10
                                  then hex_from2_upper (128 + int len) @ sp @ take 2 (drop 4 h) @ sp
                                         @ take 2 (drop 2 h) @ sp @ data
                                  else ''80 '' @ take 2 (drop 4 h) @ sp @ take 2 (drop 2 h) @ sp
                                         @ hex_from2_upper (int len) @ sp @ data)
                           in case checksum answer of
                                None \<Rightarrow> Inl ValueError
                              | Some c \<Rightarrow> Inr (answer @ c, [])))
                     else Inr ([], [LogError ''Invalid request header: %s''])))
         | _ \<Rightarrow> Inl AttributeError)"

section \<open>Session state, tasks and the catalog\<close>

text \<open>
  A task is an object of a class derived from \<^verbatim>\<open>Tasks\<close>; its fields are those that
  \<^verbatim>\<open>Tasks.__init__\<close> sets, and \<open>t_req\<close> for \<^verbatim>\<open>self.req\<close>, which exists only once
  it has been assigned. The fields carry the prefix \<open>t_\<close>. The start time is left out.
\<close>

datatype task_kind = Multiline | Plugin string

record task =
  t_kind :: task_kind
  t_header :: pyval
  t_request :: string
  t_do_write :: bool
  t_frame :: "int option"
  t_length :: "int option"
  t_flow_control :: int
  t_flow_control_end :: int
  t_req :: "string option"

definition new_task :: "task_kind \<Rightarrow> pyval \<Rightarrow> string \<Rightarrow> bool \<Rightarrow> task" where
  \<comment> \<open>\<^verbatim>\<open>Tasks.__init__(emulator, header, request, attrib, do_write)\<close>\<close>
  "new_task k header request do_write =
     \<lparr>t_kind = k, t_header = header, t_request = request, t_do_write = do_write,
      t_frame = None, t_length = None, t_flow_control = 0, t_flow_control_end = 0x20,
      t_req = None\<rparr>"

fun module_of :: "task_kind \<Rightarrow> string" where
  \<comment> \<open>\<^verbatim>\<open>__module__\<close> of the task's class; \<^verbatim>\<open>PLUGIN_DIR\<close> is \<^verbatim>\<open>elm.plugins\<close>\<close>
  "module_of Multiline = ''elm.elm''"
| "module_of (Plugin name) = ''elm.plugins.'' @ name"

text \<open>The three values a task method returns: response, continue flag, passthrough.\<close>

type_synonym task_ret = "string option \<times> bool \<times> string option"

definition TERMINATE :: bool where "TERMINATE = False"
definition CONTINUE :: bool where "CONTINUE = True"
definition ERROR :: task_ret where "ERROR = (None, TERMINATE, None)"
definition INCOMPLETE :: task_ret where "INCOMPLETE = (None, CONTINUE, None)"
definition PASSTHROUGH :: "string \<Rightarrow> task_ret" where "PASSTHROUGH cmd = (None, TERMINATE, Some cmd)"

datatype response = RespNone | RespStr string | RespList "string list"

text \<open>
  One row of the message catalog. A field is \<open>None\<close> when the key is not in the
  dictionary. \<open>Request\<close> holds the predicate \<^verbatim>\<open>re.match(val['Request'], cmd)\<close> of the
  row's pattern; \<open>Exec\<close> the effect of the row's statement on the counters, or the
  exception it raises; the header and footer generators are functions of the command.
\<close>

record entry =
  Request :: "(string \<Rightarrow> bool) option"
  Header :: "pyval option"
  Priority :: "int option"
  Action :: "string option"
  Descr :: "string option"
  Task :: "string option"
  Exec :: "(string \<Rightarrow> counters \<Rightarrow> exn + counters) option"
  Info :: "string option"
  Warning :: "string option"
  Log :: "string option"
  Response :: "response option"
  ResponseHeader :: "(string \<Rightarrow> string) option"
  ResponseFooter :: "(string \<Rightarrow> string) option"

type_synonym catalog = "(string \<times> entry) list"

record elm_state =
  counters :: counters
  presets :: counters
  tasks :: "pyval \<rightharpoonup> task"
  scenario :: string
  answer :: "string \<rightharpoonup> string"
  sortedOBDMsg :: catalog
  logs :: "logev list"
  written :: "string list"

datatype fw_data = FwFalse | FwNone | FwData string

text \<open>
  A plugin's three methods, as functions of the task's fields and the arguments; a plugin
  whose constructor raises has \<open>p_init_ok = False\<close>.
\<close>

record plugin =
  p_init_ok :: bool
  p_start :: "task \<Rightarrow> string \<Rightarrow> int option \<Rightarrow> int option \<Rightarrow> exn + (task_ret \<times> task)"
  p_run :: "task \<Rightarrow> string \<Rightarrow> int option \<Rightarrow> int option \<Rightarrow> exn + (task_ret \<times> task)"
  p_stop :: "task \<Rightarrow> string \<Rightarrow> int option \<Rightarrow> int option \<Rightarrow> exn + (task_ret \<times> task)"

text \<open>
  What elm.py takes from outside: the catalog and the constants of
  \<^verbatim>\<open>obd_message\<close>, the plugins found at start, the forwarding collaborator, the random
  source, and the renderer for the response templates that are not a single
  \<^verbatim>\<open>flow\<close> element.
\<close>

record env =
  ObdMessage :: "string \<rightharpoonup> catalog"
  ELM_R_OK :: string
  ELM_R_UNKNOWN :: string
  ECU_ADDR_E :: string
  ST :: "string \<Rightarrow> string"
  plugins :: "string \<rightharpoonup> plugin"
  send_receive_forward :: "string \<Rightarrow> fw_data"
  randint :: "int \<Rightarrow> int \<Rightarrow> int"
  render :: "counters \<Rightarrow> string \<Rightarrow> pyval \<Rightarrow> string option \<Rightarrow> exn + string option"

definition hkey :: "pyval \<Rightarrow> pyval" where
  \<comment> \<open>a dictionary key: \<^verbatim>\<open>True\<close> and 1 are the same key, as are \<^verbatim>\<open>False\<close> and 0\<close>
  "hkey v = (case v of PBool b \<Rightarrow> PInt (if b then 1 else 0) | _ \<Rightarrow> v)"

definition incr_counter :: "counters \<Rightarrow> string \<Rightarrow> exn + counters" where
  \<comment> \<open>\<^verbatim>\<open>if k not in counters: counters[k] = 0\<close> and then \<^verbatim>\<open>counters[k] += 1\<close>\<close>
  "incr_counter cs k =
     (let cs1 = (if cs k = None then cs(k \<mapsto> PInt 0) else cs)
      in case py_incr (the (cs1 k)) of
           Inl e \<Rightarrow> Inl e
         | Inr v \<Rightarrow> Inr (cs1(k \<mapsto> v)))"

section \<open>Rendering a response\<close>

definition parse_flow :: "string \<Rightarrow> string option" where
  \<comment> \<open>the text of a response that is one \<^verbatim>\<open>flow\<close> element holding hexadecimal digits
      and spaces, as \<^verbatim>\<open>Multiline.run\<close> builds it\<close>
  "parse_flow resp =
     (if 13 \<le> length resp \<and> take 6 resp = ''<flow>''
         \<and> drop (length resp - 7) resp = ''</flow>''
         \<and> list_all (\<lambda>c. is_hexdigit c \<or> c = CHR '' '') (take (length resp - 13) (drop 6 resp))
      then Some (take (length resp - 13) (drop 6 resp)) else None)"

definition nl_type :: "int \<Rightarrow> string option" where
  "nl_type n =
     (if n = 0 then Some [CHR 0x0D] else if n = 1 then Some [CHR 0x0D, CHR 0x0A]
      else if n = 2 then Some [CHR 0x0A] else if n = 3 then Some [CHR 0x0D]
      else if n = 4 then Some [CHR 0x0D, CHR 0x0A] else if n = 5 then Some [CHR 0x0A]
      else None)"

fun py_int :: "pyval \<Rightarrow> int option" where
  \<comment> \<open>\<^verbatim>\<open>int(v)\<close>; \<open>None\<close> when it raises\<close>
  "py_int (PInt n) = Some n"
| "py_int (PBool b) = Some (if b then 1 else 0)"
| "py_int (PStr s) = int10 s"
| "py_int PNone = None"

definition compute_nl :: "counters \<Rightarrow> string \<times> logev list" where
  "compute_nl cs =
     (case cs ''cmd_linefeeds'' of
        None \<Rightarrow> ([CHR 0x0D], [])
      | Some v \<Rightarrow>
          (case py_int v of
             None \<Rightarrow> ([CHR 0x0D], [LogError ''Invalid cmd_linefeeds value: %s.''])
           | Some n \<Rightarrow>
               (case nl_type n of
                  None \<Rightarrow> ([CHR 0x0D], [LogError ''Invalid cmd_linefeeds value: %s.''])
                | Some nl \<Rightarrow> (nl, []))))"

definition render_flow :: "counters \<Rightarrow> string \<Rightarrow> pyval \<Rightarrow> (exn \<times> logev list) + (string \<times> logev list)" where
  \<comment> \<open>\<^verbatim>\<open>handle_response\<close> up to the write, for a response that is one \<^verbatim>\<open>flow\<close>
      element with the text \<open>d\<close>\<close>
  "render_flow cs d request_header =
     (case (case cs ''cmd_cra'' of
              Some (PStr _) \<Rightarrow> False
            | Some v \<Rightarrow> truthy v
            | None \<Rightarrow> False) of
        True \<Rightarrow> Inl (AttributeError, [])
      | False \<Rightarrow>
         (let use_headers = (case cs ''cmd_use_header'' of None \<Rightarrow> False | Some v \<Rightarrow> truthy v);
              sp = (if cs ''cmd_spaces'' \<noteq> None \<and> py_eq (the (cs ''cmd_spaces'')) (PInt 0)
                    then [] else '' '');
              (nl, l1) = compute_nl cs
          in case uds_answer cs d request_header use_headers sp (Some ''30'') of
               Inl e \<Rightarrow> Inl (e, l1)
             | Inr (a, l2) \<Rightarrow>
                 (let answ = a @ sp @ nl in
                  case cs ''cmd_linefeeds'' of
                    None \<Rightarrow> Inr (answ @ nl @ ''>'', l1 @ l2)
                  | Some v \<Rightarrow>
                      (case py_gt_int v 2 of
                         Inl e \<Rightarrow> Inl (e, l1 @ l2)
                       | Inr True \<Rightarrow> Inr (answ @ ''>'', l1 @ l2)
                       | Inr False \<Rightarrow> Inr (answ @ nl @ ''>'', l1 @ l2)))))"

definition handle_response ::
  "env \<Rightarrow> elm_state \<Rightarrow> string \<Rightarrow> bool \<Rightarrow> pyval \<Rightarrow> string option
     \<Rightarrow> (exn \<times> elm_state) + (string option \<times> elm_state)" where
  "handle_response e s resp do_write request_header request_data =
     (case parse_flow resp of
        Some d \<Rightarrow>
          (case render_flow (counters s) d request_header of
             Inl (x, l) \<Rightarrow> Inl (x, s\<lparr>logs := logs s @ l\<rparr>)
           | Inr (answ, l) \<Rightarrow>
               Inr (Some answ,
                    s\<lparr>logs := logs s @ l,
                      written := (if do_write then written s @ [answ] else written s)\<rparr>))
      | None \<Rightarrow>
          (case render e (counters s) resp request_header request_data of
             Inl x \<Rightarrow> Inl (x, s)
           | Inr None \<Rightarrow> Inr (None, s)
           | Inr (Some answ) \<Rightarrow>
               Inr (Some answ, s\<lparr>written := (if do_write then written s @ [answ] else written s)\<rparr>)))"

section \<open>The multi-frame task\<close>

definition flow_control_step ::
  "env \<Rightarrow> elm_state \<Rightarrow> task \<Rightarrow> string \<Rightarrow> (exn \<times> elm_state) + (task \<times> elm_state)" where
  \<comment> \<open>the part of \<^verbatim>\<open>Multiline.run\<close> under \<^verbatim>\<open># Process Flow Control (FC)\<close>\<close>
  "flow_control_step e s t cmd =
     (if t_flow_control t \<noteq> 0 then Inr (t\<lparr>t_flow_control := t_flow_control t - 1\<rparr>, s)
      else
        (case (if counters s ''cmd_cfc'' = None \<or> py_eq (the (counters s ''cmd_cfc'')) (PInt 1)
               then (case handle_response e s
                            (''<flow>'' @ hex_from2_upper (t_flow_control_end t) @ '' 00</flow>'')
                            (t_do_write t) (t_header t) (Some cmd) of
                       Inl x \<Rightarrow> Inl x
                     | Inr (resp, s') \<Rightarrow>
                         Inr (if \<not> t_do_write t
                              then s'\<lparr>logs := logs s' @ [LogWarning ''Output data: %s'']\<rparr> else s'))
               else Inr s) of
           Inl x \<Rightarrow> Inl x
         | Inr s' \<Rightarrow> Inr (t\<lparr>t_flow_control := t_flow_control_end t - 1\<rparr>, s')))"

definition Multiline_finish :: "task \<Rightarrow> elm_state \<Rightarrow> (exn \<times> elm_state) + (task_ret \<times> task \<times> elm_state)" where
  \<comment> \<open>the last three lines of \<^verbatim>\<open>Multiline.run\<close>\<close>
  "Multiline_finish t s =
     (case (t_length t, t_req t) of
        (Some len, Some r) \<Rightarrow>
          if len * 2 \<le> int (length r)
          then Inr (PASSTHROUGH (slice_to r (len * 2)), t\<lparr>t_frame := None\<rparr>, s)
          else Inr (INCOMPLETE, t, s)
      | (None, _) \<Rightarrow> Inl (TypeError, s)
      | (_, None) \<Rightarrow> Inl (AttributeError, s))"

definition Multiline_run ::
  "env \<Rightarrow> elm_state \<Rightarrow> task \<Rightarrow> string \<Rightarrow> int option \<Rightarrow> int option
     \<Rightarrow> (exn \<times> elm_state) + (task_ret \<times> task \<times> elm_state)" where
  "Multiline_run e s t cmd len frm =
     (if frm = Some 0 \<and> len = None then Inl (TypeError, s)
      else if frm = Some 0 \<and> 0 < the len then
        (if (t_frame t \<noteq> None \<and> t_frame t \<noteq> Some 0) \<or> (t_length t \<noteq> None \<and> t_length t \<noteq> Some 0)
         then Inr (ERROR, t, s\<lparr>logs := logs s @ [LogError ''Invalid initial frame %s %s'']\<rparr>)
         else
           (case flow_control_step e s (t\<lparr>t_req := Some cmd, t_frame := Some 1, t_length := len\<rparr>) cmd of
              Inl x \<Rightarrow> Inl x
            | Inr (t', s') \<Rightarrow> Multiline_finish t' s'))
      else if frm \<noteq> None \<and> 0 < the frm \<and> t_frame t = frm \<and> len = None then
        (case t_req t of
           None \<Rightarrow> Inl (AttributeError, s)
         | Some r \<Rightarrow>
             (case flow_control_step e s (t\<lparr>t_req := Some (r @ cmd), t_frame := Some (the frm + 1)\<rparr>) cmd of
                Inl x \<Rightarrow> Inl x
              | Inr (t', s') \<Rightarrow> Multiline_finish t' s'))
      else if (len = None \<or> 0 < the len) \<and> frm = None \<and> t_frame t = None then
        (if len \<noteq> None \<and> len \<noteq> Some 0
         then Inr (PASSTHROUGH (slice_to cmd (the len * 2)), t\<lparr>t_req := Some cmd, t_length := len\<rparr>, s)
         else Inr (PASSTHROUGH cmd, t\<lparr>t_req := Some cmd, t_length := len\<rparr>, s))
      else Inr (ERROR, t, s\<lparr>logs := logs s @ [LogError ''Invalid consecutive frame %s %s'']\<rparr>))"

section \<open>Running a task method\<close>

datatype task_method = Start | Run | Stop

definition call_method ::
  "env \<Rightarrow> elm_state \<Rightarrow> task \<Rightarrow> task_method \<Rightarrow> string \<Rightarrow> int option \<Rightarrow> int option
     \<Rightarrow> (exn \<times> elm_state) + (task_ret \<times> task \<times> elm_state)" where
  \<comment> \<open>\<^verbatim>\<open>Multiline\<close> inherits \<^verbatim>\<open>start\<close> and \<^verbatim>\<open>stop\<close>, which call \<^verbatim>\<open>run\<close>\<close>
  "call_method e s t m cmd len frm =
     (case t_kind t of
        Multiline \<Rightarrow> Multiline_run e s t cmd len frm
      | Plugin name \<Rightarrow>
          (case plugins e name of
             None \<Rightarrow> Inl (AttributeError, s)
           | Some p \<Rightarrow>
               (case (case m of Start \<Rightarrow> p_start p | Run \<Rightarrow> p_run p | Stop \<Rightarrow> p_stop p)
                       t cmd len frm of
                  Inl x \<Rightarrow> Inl (x, s)
                | Inr (r, t') \<Rightarrow> Inr (r, t', s))))"

definition account_task :: "elm_state \<Rightarrow> pyval \<Rightarrow> (exn \<times> elm_state) + elm_state" where
  "account_task s header =
     (case tasks s (hkey header) of
        None \<Rightarrow> Inr s
      | Some t \<Rightarrow>
          (case incr_counter (counters s) (drop 12 (module_of (t_kind t))) of
             Inl x \<Rightarrow> Inl (x, s)
           | Inr cs \<Rightarrow> Inr (s\<lparr>counters := cs\<rparr>)))"

definition del_task :: "elm_state \<Rightarrow> pyval \<Rightarrow> elm_state" where
  \<comment> \<open>\<^verbatim>\<open>del self.tasks[header]\<close> for a header that is in the table\<close>
  "del_task s header = s\<lparr>tasks := (tasks s)(hkey header := None)\<rparr>"

definition task_action ::
  "env \<Rightarrow> elm_state \<Rightarrow> pyval \<Rightarrow> bool \<Rightarrow> task_method \<Rightarrow> string \<Rightarrow> int option \<Rightarrow> int option
     \<Rightarrow> (exn \<times> elm_state) + (task_ret \<times> elm_state)" where
  "task_action e s header do_write m cmd len frm =
     (case tasks s (hkey header) of
        None \<Rightarrow> Inl (KeyError, s)
      | Some t \<Rightarrow>
          (case call_method e s t m cmd len frm of
             Inl (x, s1) \<Rightarrow>
               Inr (ERROR, del_task (s1\<lparr>logs := logs s1 @ [LogCritical ''Error in task %s, header=%s, method=%s(): %s'']\<rparr>) header)
           | Inr ((r_cmd, r_task, r_cont), t', s1) \<Rightarrow>
               (let s2 = s1\<lparr>tasks := (tasks s1)(hkey header \<mapsto> t')\<rparr> in
                case (if r_cont \<noteq> None \<and> r_cmd \<noteq> None
                      then (case handle_response e s2 (the r_cmd) do_write header (Some (t_request t')) of
                              Inl x \<Rightarrow> Inl x
                            | Inr (resp, s3) \<Rightarrow>
                                Inr (if \<not> do_write
                                     then s3\<lparr>logs := logs s3 @ [LogWarning ''Task with header %s returned %s'']\<rparr>
                                     else s3))
                      else Inr s2) of
                  Inl x \<Rightarrow> Inl x
                | Inr s3 \<Rightarrow>
                    (if r_task = TERMINATE
                     then (case account_task s3 header of
                             Inl x \<Rightarrow> Inl x
                           | Inr s4 \<Rightarrow> Inr ((r_cmd, r_task, r_cont), del_task s4 header))
                     else Inr ((r_cmd, r_task, r_cont), s3)))))"

section \<open>Reset and catalog selection\<close>

definition reset :: "env \<Rightarrow> elm_state \<Rightarrow> elm_state" where
  \<comment> \<open>the sleep is left out\<close>
  "reset e s =
     (let c1 = (\<lambda>k. if take 4 k = ''cmd_'' then None else counters s k);
          c2 = c1(''ELM_PIDS_A'' \<mapsto> PInt 0, ''ELM_MIDS_A'' \<mapsto> PInt 0,
                  ''cmd_set_header'' \<mapsto> PStr (ECU_ADDR_E e))
      in s\<lparr>counters := c2 ++ presets s, tasks := Map.empty\<rparr>)"





section \<open>Handling a request\<close>

definition sanitize :: "string \<Rightarrow> string" where
  \<comment> \<open>\<^verbatim>\<open>cmd.replace(" ", "").upper()\<close>\<close>
  "sanitize cmd = upper (filter (\<lambda>c. c \<noteq> CHR '' '') cmd)"

definition fcsm_stage :: "elm_state \<Rightarrow> pyval \<Rightarrow> string \<Rightarrow> elm_state \<times> pyval \<times> string" where
  \<comment> \<open>the block under \<^verbatim>\<open># cmd_fcsm is experimental\<close>\<close>
  "fcsm_stage s header cmd =
     (if counters s ''cmd_fcsm'' \<noteq> None \<and> truthy (the (counters s ''cmd_fcsm''))
         \<and> take 2 cmd \<noteq> ''AT'' \<and> is_hex_sp (take 3 cmd)
      then (s\<lparr>counters := (counters s)(''cmd_set_header'' \<mapsto> PStr (take 3 cmd),
                                        ''cmd_caf'' \<mapsto> PBool False,
                                        ''cmd_use_header'' \<mapsto> PBool True)\<rparr>,
            PStr (take 3 cmd), drop 3 cmd)
      else (s, header, cmd))"

datatype pci_result = Reject logev | Parsed string "int option" "int option"

definition pci_byte_in_requests :: "counters \<Rightarrow> bool" where
  \<comment> \<open>\<^verbatim>\<open>'cmd_caf' in self.counters and not self.counters['cmd_caf']\<close>, which the source
      comments as \<^verbatim>\<open># PCI byte in requests\<close>\<close>
  "pci_byte_in_requests cs = (cs ''cmd_caf'' \<noteq> None \<and> \<not> truthy (the (cs ''cmd_caf'')))"

definition pci_stage :: "counters \<Rightarrow> string \<Rightarrow> pci_result" where
  \<comment> \<open>the block under \<^verbatim>\<open># manages cmd_caf, length, frame\<close>: a rejected request is
      answered with the empty string after the error is logged; otherwise the command, the
      length and the frame go on\<close>
  "pci_stage cs cmd =
     (let size = take 2 cmd in
      if pci_byte_in_requests cs \<and> size \<noteq> ''AT'' \<and> is_hex_sp size
      then
        (case int16 size of
           None \<Rightarrow> Reject (LogError ''Improper size %s for request %s: %s'')
         | Some int_size \<Rightarrow>
             (let payload = drop 2 cmd in
              if payload = [] then Reject (LogError ''Missing data for request %s'')
              else
                (case (if int_size < 16 then
                         (if int (length payload) < int_size * 2
                          then Inl (LogError ''In request %s, data %s has an improper length of %s bytes'')
                          else Inr (slice_to payload (int_size * 2), Some int_size, None))
                       else if int_size = 16 then
                         (case int16 (take 2 (drop 2 cmd)) of
                            None \<Rightarrow> Inl (LogError ''Improper size %s for request %s: %s'')
                          | Some len \<Rightarrow> Inr (drop 4 cmd, Some len, Some 0))
                       else Inr (drop 2 cmd, None, None)) of
                   Inl err \<Rightarrow> Reject err
                 | Inr (cmd', len, frm) \<Rightarrow>
                     Parsed cmd' len (if 32 < int_size then Some (int_size - 32) else frm))))
      else Parsed cmd None None)"

datatype stage_result = Return "string option" | Proceed string "int option" "int option"

definition task_stage ::
  "env \<Rightarrow> elm_state \<Rightarrow> pyval \<Rightarrow> bool \<Rightarrow> string \<Rightarrow> int option \<Rightarrow> int option
     \<Rightarrow> (exn \<times> elm_state) + (stage_result \<times> elm_state)" where
  \<comment> \<open>the block under \<^verbatim>\<open># Manage active tasks\<close>: \<open>Return r\<close> is
      \<^verbatim>\<open>return header, cmd, r\<close>, \<open>Proceed\<close> goes on to the catalog\<close>
  "task_stage e s0 header do_write cmd len frm =
     (let s = (if tasks s0 (hkey header) = None \<and> len \<noteq> None \<and> frm \<noteq> None
               then s0\<lparr>tasks := (tasks s0)(hkey header \<mapsto> new_task Multiline header cmd do_write)\<rparr>
               else s0)
      in if tasks s (hkey header) \<noteq> None then
           (if len_hex cmd \<noteq> 0 then
              (case task_action e s header do_write Run cmd len frm of
                 Inl x \<Rightarrow> Inl x
               | Inr ((r_cmd, r_task, r_cont), s1) \<Rightarrow>
                   (case r_cont of
                      None \<Rightarrow> Inr (Return r_cmd, s1)
                    | Some c \<Rightarrow> Inr (Proceed c None None, s1)))
            else
              (case task_action e (s\<lparr>logs := logs s @ [LogWarning ''Interrupted task %s with header %s'']\<rparr>)
                      header do_write Stop cmd len frm of
                 Inl x \<Rightarrow> Inl x
               | Inr ((r_cmd, r_task, r_cont), s1) \<Rightarrow>
                   (let s2 = (if tasks s1 (hkey header) \<noteq> None then del_task s1 header else s1) in
                    case r_cont of
                      None \<Rightarrow> Inr (Return r_cmd, s2)
                    | Some c \<Rightarrow> Inr (Proceed c len frm, s2))))
         else Inr (Proceed cmd len frm, s))"

definition NO_DATA_pattern :: pattern where
  \<comment> \<open>\<^verbatim>\<open>r"^NO DATA *\r"\<close>\<close>
  "NO_DATA_pattern =
     (map (\<lambda>c. ((\<lambda>x. x = c), Once)) ''NO DATA'' @ [((\<lambda>x. x = CHR '' ''), Star), ((\<lambda>x. x = CHR 0x0D), Once)],
      False)"

definition question_pattern :: pattern where
  \<comment> \<open>\<^verbatim>\<open>r"^\? *\r"\<close>\<close>
  "question_pattern =
     ([((\<lambda>x. x = CHR ''?''), Once), ((\<lambda>x. x = CHR '' ''), Star), ((\<lambda>x. x = CHR 0x0D), Once)], False)"

definition repr_char :: "char \<Rightarrow> char \<Rightarrow> string" where
  "repr_char q c =
     (if c = q \<or> c = CHR 0x5C then [CHR 0x5C, c]
      else if c = CHR 0x09 then [CHR 0x5C, CHR ''t'']
      else if c = CHR 0x0A then [CHR 0x5C, CHR ''n'']
      else if c = CHR 0x0D then [CHR 0x5C, CHR ''r'']
      else if ord c < 32 \<or> ord c = 127
        then [CHR 0x5C, CHR ''x'',
              (if ord c div 16 < 10 then char_of (48 + ord c div 16) else char_of (87 + ord c div 16)),
              (if ord c mod 16 < 10 then char_of (48 + ord c mod 16) else char_of (87 + ord c mod 16))]
      else [c])"

definition repr :: "string \<Rightarrow> string" where
  \<comment> \<open>\<^verbatim>\<open>repr\<close> of an ASCII string\<close>
  "repr s =
     (let q = (if CHR 0x27 \<in> set s \<and> CHR 0x22 \<notin> set s then CHR 0x22 else CHR 0x27)
      in q # concat (map (repr_char q) s) @ [q])"

definition repr_fw :: "fw_data \<Rightarrow> string" where
  "repr_fw d = (case d of FwData x \<Rightarrow> repr x | FwNone \<Rightarrow> ''None'' | FwFalse \<Rightarrow> ''False'')"

type_synonym request_result = "(exn \<times> elm_state) + ((pyval \<times> string \<times> string option) \<times> elm_state)"

definition unknown_cmd :: "env \<Rightarrow> elm_state \<Rightarrow> pyval \<Rightarrow> string \<Rightarrow> request_result" where
  \<comment> \<open>the end of \<^verbatim>\<open>handle_request\<close>, from \<^verbatim>\<open># Here cmd is unknown\<close>; with a header, the
      last log lines read \<^verbatim>\<open>self.counters["cmd_set_header"]\<close>\<close>
  "unknown_cmd e s header cmd =
     (case incr_counter (counters s) (''unknown_'' @ repr cmd) of
        Inl x \<Rightarrow> Inl (x, s)
      | Inr cs1 \<Rightarrow>
          if cmd = [] then
            Inr ((header, cmd, Some []), s\<lparr>counters := cs1, logs := logs s @ [LogInfo ''No ELM command'']\<rparr>)
          else
            (let fw = send_receive_forward e (cmd @ [CHR 0x0D]);
                 cs2 = (if fw \<noteq> FwFalse then cs1(''unknown_'' @ repr cmd @ ''_R'' \<mapsto> PStr (repr_fw fw))
                        else cs1);
                 fw_text = (case fw of FwData x \<Rightarrow> x | _ \<Rightarrow> []);
                 l1 = (if fw \<noteq> FwFalse \<and> \<not> re_match NO_DATA_pattern fw_text
                          \<and> \<not> re_match question_pattern fw_text
                          \<and> py_eq (the (cs2 (''unknown_'' @ repr cmd))) (PInt 1)
                       then [LogWarning ''Missing data in dictionary: %s. Answer:%s''] else [])
             in if truthy header \<and> cs2 ''cmd_set_header'' = None then
                  Inl (KeyError, s\<lparr>counters := cs2, logs := logs s @ l1\<rparr>)
                else if len_hex cmd \<noteq> 0 then
                  Inr ((header, cmd, Some (ST e ''NO DATA'')),
                       s\<lparr>counters := cs2,
                         logs := logs s @ l1 @ [LogInfo (if truthy header then ''Unknown request: %s, header=%s''
                                                          else ''Unknown request: %s'')]\<rparr>)
                else
                  Inr ((header, cmd, Some (ELM_R_UNKNOWN e)),
                       s\<lparr>counters := cs2,
                         logs := logs s @ l1 @ [LogInfo (if truthy header then ''Unknown ELM command: %s, header=%s''
                                                          else ''Unknown ELM command: %s'')]\<rparr>)))"

definition log_directive :: "entry \<Rightarrow> logev list" where
  \<comment> \<open>the row's \<^verbatim>\<open>Info\<close>, \<^verbatim>\<open>Warning\<close> or \<^verbatim>\<open>Log\<close> expression; the last one present
      is the one logged (at debug level for \<^verbatim>\<open>Log\<close>, which leaves no event here); the
      event holds the expression, its evaluation is left out\<close>
  "log_directive val =
     (if Log val \<noteq> None then []
      else if Warning val \<noteq> None then [LogWarning (the (Warning val))]
      else if Info val \<noteq> None then [LogInfo (the (Info val))]
      else [])"

definition respond :: "env \<Rightarrow> elm_state \<Rightarrow> pyval \<Rightarrow> string \<Rightarrow> string \<Rightarrow> entry \<Rightarrow> request_result" where
  \<comment> \<open>a selected row, from \<^verbatim>\<open>if 'Exec' in val\<close> to the return\<close>
  "respond e s0 header cmd pid val =
     (let s1 = (case Exec val of
                  None \<Rightarrow> s0
                | Some f \<Rightarrow>
                    (case f cmd (counters s0) of
                       Inl x \<Rightarrow> s0\<lparr>logs := logs s0 @ [LogError ''Cannot execute '%s' for PID %s (%s)'']\<rparr>
                     | Inr cs \<Rightarrow> s0\<lparr>counters := cs\<rparr>));
          s = s1\<lparr>logs := logs s1 @ log_directive val\<rparr>
      in case Response val of
           None \<Rightarrow>
             Inr ((header, cmd, Some (ELM_R_OK e)),
                  s\<lparr>logs := logs s @ [LogError ''Internal error - Missing response for %s, PID %s'']\<rparr>)
         | Some r \<Rightarrow>
             (let r_header = (case ResponseHeader val of None \<Rightarrow> [] | Some f \<Rightarrow> f cmd);
                  r_footer = (case ResponseFooter val of None \<Rightarrow> [] | Some f \<Rightarrow> f cmd)
              in case r of
                   RespNone \<Rightarrow> Inr ((header, cmd, None), s)
                 | RespStr x \<Rightarrow> Inr ((header, cmd, Some (r_header @ x @ r_footer)), s)
                 | RespList xs \<Rightarrow>
                     if xs = [] then Inl (ValueError, s)
                     else Inr ((header, cmd,
                                Some (r_header @ xs ! (nat (randint e 0 (int (length xs) - 1)) mod length xs)
                                        @ r_footer)), s)))"

definition start_task ::
  "env \<Rightarrow> elm_state \<Rightarrow> pyval \<Rightarrow> bool \<Rightarrow> string \<Rightarrow> int option \<Rightarrow> int option \<Rightarrow> string
     \<Rightarrow> (exn \<times> elm_state) + (stage_result \<times> elm_state)" where
  \<comment> \<open>the block under \<^verbatim>\<open>if 'Task' in val\<close>, for the plugin name \<open>name\<close>\<close>
  "start_task e s header do_write cmd len frm name =
     (case plugins e name of
        None \<Rightarrow> Inr (Return None, s\<lparr>logs := logs s @ [LogError ''Unexisting plugin %s for pid %s'']\<rparr>)
      | Some p \<Rightarrow>
          (let s1 = (if tasks s (hkey header) \<noteq> None then del_task s header else s) in
           if \<not> p_init_ok p
           then Inr (Return None, s1\<lparr>logs := logs s1 @ [LogCritical ''Cannot start task %s, header=%s: %s'']\<rparr>)
           else
             (case task_action e
                     (s1\<lparr>tasks := (tasks s1)(hkey header \<mapsto> new_task (Plugin name) header cmd do_write)\<rparr>)
                     header do_write Start cmd len frm of
                Inl x \<Rightarrow> Inl x
              | Inr ((r_cmd, r_task, r_cont), s2) \<Rightarrow>
                  (case r_cont of
                     None \<Rightarrow> Inr (Return r_cmd, s2)
                   | Some c \<Rightarrow> Inr (Proceed c len frm, s2)))))"

definition selected :: "env \<Rightarrow> elm_state \<Rightarrow> pyval \<Rightarrow> bool \<Rightarrow> string \<Rightarrow> int option \<Rightarrow> int option
     \<Rightarrow> string \<Rightarrow> entry \<Rightarrow> request_result" where
  \<comment> \<open>a row that matched and is not skipped, from the test of \<^verbatim>\<open>Descr\<close> on\<close>
  "selected e s0 header do_write cmd len frm pid val =
     (let s = (if Descr val = None
               then s0\<lparr>logs := logs s0 @ [LogError ''Internal error - Missing description for %s, PID %s'']\<rparr>
               else s0)
      in case answer s pid of
           Some a \<Rightarrow> Inr ((header, cmd, Some a), s)
         | None \<Rightarrow>
             (case Task val of
                None \<Rightarrow> respond e s header cmd pid val
              | Some name \<Rightarrow>
                  (case start_task e s header do_write cmd len frm name of
                     Inl x \<Rightarrow> Inl x
                   | Inr (Return r, s1) \<Rightarrow> Inr ((header, cmd, r), s1)
                   | Inr (Proceed c _ _, s1) \<Rightarrow> respond e s1 header c pid val)))"

definition request_matches :: "entry \<Rightarrow> string \<Rightarrow> bool" where
  \<comment> \<open>\<^verbatim>\<open>'Request' in val and re.match(val['Request'], cmd)\<close>\<close>
  "request_matches val cmd = (case Request val of None \<Rightarrow> False | Some m \<Rightarrow> m cmd)"

fun resolve :: "env \<Rightarrow> elm_state \<Rightarrow> pyval \<Rightarrow> bool \<Rightarrow> string \<Rightarrow> int option \<Rightarrow> int option
     \<Rightarrow> catalog \<Rightarrow> request_result" where
  \<comment> \<open>the loop \<^verbatim>\<open>for i in self.sortedOBDMsg\<close> and what follows it\<close>
  "resolve e s header do_write cmd len frm [] = unknown_cmd e s header cmd"
| "resolve e s header do_write cmd len frm ((key, val) # rest) =
     (if request_matches val cmd then
        (if Header val \<noteq> None \<and> truthy header \<and> counters s ''cmd_set_header'' = None
         then Inl (KeyError, s)
         else if Header val \<noteq> None \<and> truthy header
                 \<and> \<not> py_eq (the (Header val)) (the (counters s ''cmd_set_header''))
         then resolve e s header do_write cmd len frm rest
         else
           (let pid = (if key \<noteq> [] then key else ''UNKNOWN'') in
            case incr_counter (counters s) pid of
              Inl x \<Rightarrow> Inl (x, s)
            | Inr cs \<Rightarrow>
                if Action val = Some ''skip''
                then resolve e (s\<lparr>counters := cs, logs := logs s @ [LogInfo ''Received %s. PID %s. Action=%s'']\<rparr>)
                       header do_write cmd len frm rest
                else selected e (s\<lparr>counters := cs\<rparr>) header do_write cmd len frm pid val))
      else resolve e s header do_write cmd len frm rest)"

definition handle_request :: "env \<Rightarrow> elm_state \<Rightarrow> string \<Rightarrow> bool \<Rightarrow> request_result" where
  \<comment> \<open>the delay is left out\<close>
  "handle_request e s0 cmd0 do_write =
     (let cmd = sanitize cmd0 in
      case incr_counter (counters s0) ''commands'' of
        Inl x \<Rightarrow> Inl (x, s0)
      | Inr cs \<Rightarrow>
          (let s = s0\<lparr>counters := cs\<rparr>;
               header = (case counters s ''cmd_set_header'' of Some h \<Rightarrow> h | None \<Rightarrow> PNone)
           in if ObdMessage e (scenario s) = None
              then Inr ((header, cmd, Some []), s\<lparr>logs := logs s @ [LogError ''Unknown scenario %s'']\<rparr>)
              else
                (case fcsm_stage s header cmd of
                   (s1, header1, cmd1) \<Rightarrow>
                     (case pci_stage (counters s1) cmd1 of
                        Reject err \<Rightarrow> Inr ((header1, cmd1, Some []), s1\<lparr>logs := logs s1 @ [err]\<rparr>)
                      | Parsed cmd2 len frm \<Rightarrow>
                          (case task_stage e s1 header1 do_write cmd2 len frm of
                             Inl x \<Rightarrow> Inl x
                           | Inr (Return r, s2) \<Rightarrow> Inr ((header1, cmd2, r), s2)
                           | Inr (Proceed cmd3 len3 frm3, s2) \<Rightarrow>
                               resolve e s2 header1 do_write cmd3 len3 frm3 (sortedOBDMsg s2))))))"

section \<open>The main loop\<close>

definition blank_pattern :: pattern where
  \<comment> \<open>\<^verbatim>\<open>'^ *$'\<close>\<close>
  "blank_pattern = ([((\<lambda>x. x = CHR '' ''), Star)], True)"

definition last_command :: "elm_state \<Rightarrow> string \<Rightarrow> pyval \<times> elm_state" where
  \<comment> \<open>the block under \<^verbatim>\<open># process 'fast' option (command repetition)\<close>\<close>
  "last_command s line =
     (if re_match blank_pattern line \<and> counters s ''cmd_last_cmd'' \<noteq> None
      then (the (counters s ''cmd_last_cmd''), s)
      else (PStr line, s\<lparr>counters := (counters s)(''cmd_last_cmd'' \<mapsto> PStr line)\<rparr>))"

definition process_valid :: "env \<Rightarrow> elm_state \<Rightarrow> string \<Rightarrow> (exn \<times> elm_state) + elm_state" where
  \<comment> \<open>the branch of the loop for a valid command: an exception of \<^verbatim>\<open>handle_request\<close>
      is caught and logged, one of \<^verbatim>\<open>handle_response\<close> is not\<close>
  "process_valid e s cmd =
     (case handle_request e s cmd True of
        Inl (x, s1) \<Rightarrow> Inr (s1\<lparr>logs := logs s1 @ [LogCritical ''Error while processing %s:%s%s'']\<rparr>)
      | Inr ((request_header, request_data, resp), s1) \<Rightarrow>
          (case resp of
             None \<Rightarrow> Inr s1
           | Some r \<Rightarrow>
               (case handle_response e s1 r True request_header (Some request_data) of
                  Inl x \<Rightarrow> Inl x
                | Inr (a, s2) \<Rightarrow> Inr s2)))"

definition loop_body :: "env \<Rightarrow> elm_state \<Rightarrow> string \<Rightarrow> (exn \<times> elm_state) + elm_state" where
  \<comment> \<open>one turn of the loop of \<^verbatim>\<open>Elm.run\<close> for a line that was read; \<^verbatim>\<open>re.match\<close>
      raises on a repeated command that is not a string\<close>
  "loop_body e s0 line =
     (case last_command s0 line of
        (PStr cmd, s) \<Rightarrow>
          if validate cmd then process_valid e s cmd
          else Inr (s\<lparr>logs := logs s @ [LogWarning ''Invalid request: %s'']\<rparr>)
      | (v, s) \<Rightarrow> Inl (TypeError, s))"

section \<open>Sessions\<close>

text \<open>
  The main loop handles one line after the other and goes on after an exception, so the
  next request starts in the state the previous one left.
\<close>

definition state_after :: "request_result \<Rightarrow> elm_state" where
  "state_after r = (case r of Inl (x, s) \<Rightarrow> s | Inr (a, s) \<Rightarrow> s)"

definition reply_of :: "request_result \<Rightarrow> (pyval \<times> string \<times> string option) option" where
  \<comment> \<open>the triple \<^verbatim>\<open>handle_request\<close> returns, \<open>None\<close> when it raises\<close>
  "reply_of r = (case r of Inl _ \<Rightarrow> None | Inr (a, s) \<Rightarrow> Some a)"

text \<open>
  The frames of one exchange on a header, each given to the task stage of
  \<^verbatim>\<open>handle_request\<close> in the state the frame before left.
\<close>

fun feed :: "env \<Rightarrow> elm_state \<Rightarrow> pyval \<Rightarrow> bool \<Rightarrow> (string \<times> int option \<times> int option) list
     \<Rightarrow> (exn \<times> elm_state) + (stage_result list \<times> elm_state)" where
  "feed e s header do_write [] = Inr ([], s)"
| "feed e s header do_write ((cmd, len, frm) # fs) =
     (case task_stage e s header do_write cmd len frm of
        Inl x \<Rightarrow> Inl x
      | Inr (r, s1) \<Rightarrow>
          (case feed e s1 header do_write fs of
             Inl x \<Rightarrow> Inl x
           | Inr (rs, s2) \<Rightarrow> Inr (r # rs, s2)))"


text \<open>
  The frames of a multi-frame exchange as the length prefix stage hands them on: the
  First Frame with its length and frame 0, then the Consecutive Frames with no length,
  the \<open>i\<close>-th with frame \<open>i\<close>.
\<close>

definition consecutive_frames :: "nat \<Rightarrow> string list \<Rightarrow> (string \<times> int option \<times> int option) list" where
  "consecutive_frames n ps = map (\<lambda>(i, p). (p, None, Some (int i))) (enumerate n ps)"

definition exchange :: "string \<Rightarrow> int \<Rightarrow> string list \<Rightarrow> (string \<times> int option \<times> int option) list" where
  "exchange p0 L ps = (p0, Some L, Some 0) # consecutive_frames 1 ps"

text \<open>A task in the middle of a collection: it waits for frame \<open>n\<close> and holds \<open>acc\<close>.\<close>

definition collecting :: "task \<Rightarrow> pyval \<Rightarrow> int \<Rightarrow> int \<Rightarrow> string \<Rightarrow> bool" where
  "collecting t header L n acc =
     (t_kind t = Multiline \<and> t_header t = header \<and> t_frame t = Some n \<and> t_length t = Some L
      \<and> t_req t = Some acc \<and> t_flow_control_end t = 0x20)"

text \<open>
  The flow-control reply of a task with the header, when one is due, is rendered without
  an exception (or flow control is switched off by the counter \<open>cmd_cfc\<close>).
\<close>

definition flow_reply_ok :: "counters \<Rightarrow> pyval \<Rightarrow> bool" where
  "flow_reply_ok cs header =
     ((cs ''cmd_cfc'' \<noteq> None \<and> \<not> py_eq (the (cs ''cmd_cfc'')) (PInt 1))
      \<or> (case render_flow cs ''20 00'' header of Inl x \<Rightarrow> False | Inr y \<Rightarrow> True))"

definition stage_results :: "(exn \<times> elm_state) + (stage_result list \<times> elm_state) \<Rightarrow> stage_result list option" where
  "stage_results r = (case r of Inl x \<Rightarrow> None | Inr (rs, s) \<Rightarrow> Some rs)"

text \<open>A counter that \<^verbatim>\<open>+= 1\<close> can increment: absent, or a number.\<close>

definition numeric_or_absent :: "counters \<Rightarrow> string \<Rightarrow> bool" where
  "numeric_or_absent cs k =
     (case cs k of None \<Rightarrow> True | Some (PInt n) \<Rightarrow> True | Some (PBool b) \<Rightarrow> True | _ \<Rightarrow> False)"

text \<open>A small environment and a fresh session, for concrete runs.\<close>

definition plain_entry :: "(string \<Rightarrow> bool) \<Rightarrow> string \<Rightarrow> entry" where
  "plain_entry m r =
     \<lparr>Request = Some m, Header = None, Priority = None, Action = None, Descr = Some ''row'',
      Task = None, Exec = None, Info = None, Warning = None, Log = None,
      Response = Some (RespStr r), ResponseHeader = None, ResponseFooter = None\<rparr>"

definition demo_env :: env where
  "demo_env =
     \<lparr>ObdMessage = [''default'' \<mapsto> [(''SPEED'', plain_entry (\<lambda>c. take 4 c = ''010D'') ''DEFAULT'')],
                    ''AT'' \<mapsto> [],
                    ''car'' \<mapsto> [(''CAR_SPEED'', plain_entry (\<lambda>c. take 4 c = ''010D'') ''SCENARIO'')]],
      ELM_R_OK = ''OK'', ELM_R_UNKNOWN = ''?'', ECU_ADDR_E = ''7E0'',
      ST = (\<lambda>x. ''<string>'' @ x @ ''</string>''),
      plugins = Map.empty, send_receive_forward = (\<lambda>x. FwFalse),
      randint = (\<lambda>a b. a), render = (\<lambda>cs resp h d. Inr None)\<rparr>"

definition demo_state :: elm_state where
  "demo_state =
     \<lparr>counters = [''cmd_set_header'' \<mapsto> PStr ''7E0''], presets = Map.empty, tasks = Map.empty,
      scenario = ''default'', answer = Map.empty, sortedOBDMsg = [], logs = [], written = []\<rparr>"

section \<open>Request validation\<close>

lemma match_items_star_last: "match_items [(cls, Star)] False s"
  by (induction s) auto

lemma validate_True: "validate cmd"
  by (simp add: validate_def re_match_def ELM_VALID_CHARS_def match_items_star_last)

text \<open>
  C10: the validation predicate is true of every string, so a turn of the main loop never
  takes its invalid-request branch: whatever the line, the command (the line, or the
  repeated last command) is handled as a valid one, which starts with its
  \<open>handle_request\<close>.
\<close>

theorem validate_always_true:
  "validate cmd = True
   \<and> loop_body e s line =
       (case last_command s line of
          (PStr c, s1) \<Rightarrow> process_valid e s1 c
        | (v, s1) \<Rightarrow> Inl (TypeError, s1))"
  by (simp add: validate_True loop_body_def split: prod.splits pyval.splits)

section \<open>The UDS encoder with a 29-bit header\<close>

text \<open>
  What the encoder does with a 6-digit header where it works: without header echo the
  answer is empty and an error is logged; with header echo, a payload of fewer than 10
  bytes gets the byte \<open>0x80 + length\<close>, the two header bytes swapped, the data and the
  checksum, and a payload of 16 to 255 bytes gets \<open>80\<close>, the swapped header bytes, the
  length byte, the data and the checksum. The checksum is the sum of all the bytes before
  it modulo 256.
\<close>

lemma ord_hexdigit: "d < 16 \<Longrightarrow> ord (hexdigit d) = (if d < 10 then 48 + d else 55 + d)"
  by (simp add: ord_def hexdigit_def)

lemma hexdigit_props:
  assumes "d < 16"
  shows "is_hexdigit (hexdigit d)" "hexval (hexdigit d) = d" "\<not> is_space (hexdigit d)"
    "upper_char (hexdigit d) = hexdigit d"
  using assms ord_hexdigit [OF assms]
  by (auto simp: is_hexdigit_def is_digit_def hexval_def is_lower_def is_space_def upper_char_def)

lemma hexdigit_not_space: "is_hexdigit c \<Longrightarrow> \<not> is_space c"
  by (auto simp: is_hexdigit_def is_digit_def is_space_def)

lemma hexdigit_0: "hexdigit 0 = CHR ''0''"
  by code_simp

lemma fmt_02X_byte: "n < 256 \<Longrightarrow> fmt_02X n = [hexdigit (n div 16), hexdigit (n mod 16)]"
  by (subst fmt_02X_def, subst to_hex.simps, subst to_hex.simps) (auto simp: hexdigit_0)

lemma fromhex_pair:
  "is_hexdigit a \<Longrightarrow> is_hexdigit b \<Longrightarrow>
     fromhex (a # b # rest) = map_option ((#) (16 * hexval a + hexval b)) (fromhex rest)"
  by (simp add: hexdigit_not_space)

lemma fromhex_sp: "sp = [] \<or> sp = '' '' \<Longrightarrow> fromhex (sp @ rest) = fromhex rest"
  by (cases rest) (auto simp: is_space_def ord_def)

lemma fromhex_fmt:
  assumes "n < 256" "sp = [] \<or> sp = '' ''"
  shows "fromhex (fmt_02X n @ sp @ rest) = map_option ((#) n) (fromhex rest)"
proof -
  have d: "n div 16 < 16" "n mod 16 < 16" using assms(1) by auto
  show ?thesis
    using hexdigit_props [OF d(1)] hexdigit_props [OF d(2)] fromhex_sp [OF assms(2), of rest]
    by (simp add: fmt_02X_byte [OF assms(1)] fromhex_pair)
qed

lemma fromhex_join:
  assumes "sp = [] \<or> sp = '' ''" "\<forall>b\<in>set bs. b < 256"
  shows "fromhex (join sp (map fmt_02X bs)) = Some bs"
  using assms(2)
proof (induction bs rule: induct_list012)
  case 1
  then show ?case by simp
next
  case (2 x)
  then show ?case using fromhex_fmt [of x "[]" "[]"] by simp
next
  case (3 x y zs)
  then show ?case using fromhex_fmt [OF _ assms(1), of x "join sp (map fmt_02X (y # zs))"] by simp
qed

lemma fromhex_bytes: "fromhex s = Some bs \<Longrightarrow> \<forall>b\<in>set bs. b < 256"
proof (induction s arbitrary: bs rule: fromhex.induct)
  case 1
  then show ?case by simp
next
  case (2 c)
  then show ?case by (simp split: if_splits)
next
  case (3 c d ds)
  show ?case
  proof (cases "is_space c")
    case True
    then show ?thesis using 3 by simp
  next
    case False
    then obtain r where r: "is_hexdigit c" "is_hexdigit d" "fromhex ds = Some r"
        "bs = (16 * hexval c + hexval d) # r"
      using 3(3) by (auto split: if_splits)
    have "hexval c < 16" "hexval d < 16"
      using r(1,2) by (auto simp: is_hexdigit_def is_digit_def hexval_def is_lower_def)
    then show ?thesis using 3(2) [OF False _ r(3)] r by auto
  qed
qed

lemma upper_join:
  assumes "sp = [] \<or> sp = '' ''" "\<forall>b\<in>set bs. b < 256"
  shows "upper (join sp (map fmt_02X bs)) = join sp (map fmt_02X bs)"
proof -
  have f: "upper (fmt_02X n) = fmt_02X n" if "n < 256" for n
  proof -
    have d: "n div 16 < 16" "n mod 16 < 16" using that by auto
    show ?thesis
      using hexdigit_props(4) [OF d(1)] hexdigit_props(4) [OF d(2)]
      by (simp add: fmt_02X_byte [OF that] upper_def)
  qed
  have s: "upper sp = sp" using assms(1) by (auto simp: upper_def upper_char_def is_lower_def ord_def)
  have a: "upper (x @ y) = upper x @ upper y" for x y by (simp add: upper_def)
  show ?thesis using assms(2)
    by (induction bs rule: induct_list012) (simp_all add: f s a upper_def [of "[]"])
qed

lemma hexval_bound: "is_hexdigit c \<Longrightarrow> hexval c < 16"
  by (auto simp: is_hexdigit_def is_digit_def hexval_def is_lower_def)

lemma to_hex_byte: "16 \<le> n \<Longrightarrow> n < 256 \<Longrightarrow> to_hex n = fmt_02X n"
  by (simp add: fmt_02X_def)

lemma uds_answer_29bit:
  assumes "strip_upper h0 = [h1, h2, h3, h4, h5, h6]"
    and "is_hexdigit h3" "is_hexdigit h4" "is_hexdigit h5" "is_hexdigit h6"
    and "fromhex data = Some bs" "sp = [] \<or> sp = '' ''"
    and "length bs < 10 \<or> (16 \<le> length bs \<and> length bs < 256)"
  shows "uds_answer cs data (PStr h0) True sp None =
     Inr ((if length bs < 10
           then fmt_02X (128 + length bs) @ sp @ [h5, h6] @ sp @ [h3, h4] @ sp
           else ''80 '' @ [h5, h6] @ sp @ [h3, h4] @ sp @ fmt_02X (length bs) @ sp)
          @ join sp (map fmt_02X bs) @ '' ''
          @ fmt_02X ((128 + length bs + (16 * hexval h5 + hexval h6) + (16 * hexval h3 + hexval h4)
                      + sum_list bs) mod 256),
          [])"
proof -
  let ?d = "join sp (map fmt_02X bs)"
  have bd: "\<forall>b\<in>set bs. b < 256" using fromhex_bytes [OF assms(6)] .
  have up: "upper ?d = ?d" using upper_join [OF assms(7) bd] .
  have fd: "fromhex ?d = Some bs" using fromhex_join [OF assms(7) bd] .
  have t: "fromhex ([h5, h6] @ sp @ [h3, h4] @ sp @ rest)
             = map_option (\<lambda>r. (16 * hexval h5 + hexval h6) # (16 * hexval h3 + hexval h4) # r) (fromhex rest)" for rest
    using assms(2-5) fromhex_sp [OF assms(7)]
    by (simp add: fromhex_pair hexdigit_not_space option.map_comp comp_def del: fromhex.simps)
  show ?thesis
  proof (cases "length bs < 10")
    case True
    have l: "128 + length bs < 256" "16 \<le> 128 + length bs" using True by simp_all
    have hx: "hex_from2_upper (128 + int (length bs)) = fmt_02X (128 + length bs)"
      using to_hex_byte [OF l(2,1)] by (simp add: hex_from2_upper_def nat_add_distrib)
    let ?a = "fmt_02X (128 + length bs) @ sp @ [h5, h6] @ sp @ [h3, h4] @ sp @ ?d"
    have "fromhex ?a = Some ((128 + length bs) # (16 * hexval h5 + hexval h6) # (16 * hexval h3 + hexval h4) # bs)"
      using fromhex_fmt [OF l(1) assms(7), of "[h5, h6] @ sp @ [h3, h4] @ sp @ ?d"] t [of ?d] fd
      by (simp del: fromhex.simps)
    then have ck: "checksum ?a = Some ('' '' @ fmt_02X (((128 + length bs)
                      + (16 * hexval h5 + hexval h6) + (16 * hexval h3 + hexval h4) + sum_list bs) mod 256))"
      by (simp add: checksum_def add.assoc del: fromhex.simps)
    show ?thesis
      using True assms(1,6) ck
      by (simp add: uds_answer_def Let_def up hx del: fromhex.simps)
  next
    case False
    then have l: "16 \<le> length bs" "length bs < 256" using assms(8) by simp_all
    have hx: "hex_from2_upper (int (length bs)) = fmt_02X (length bs)"
      using to_hex_byte [OF l] by (simp add: hex_from2_upper_def)
    let ?a = "''80 '' @ [h5, h6] @ sp @ [h3, h4] @ sp @ fmt_02X (length bs) @ sp @ ?d"
    have e: "fromhex (''80 '' @ rest) = map_option ((#) 128) (fromhex rest)" for rest
    proof -
      have "fromhex (fmt_02X 128 @ '' '' @ rest) = map_option ((#) 128) (fromhex rest)"
        by (rule fromhex_fmt) simp_all
      moreover have "fmt_02X 128 = ''80''" by code_simp
      ultimately show ?thesis by simp
    qed
    have "fromhex ?a = Some (128 # (16 * hexval h5 + hexval h6) # (16 * hexval h3 + hexval h4) # length bs # bs)"
      using e [of "[h5, h6] @ sp @ [h3, h4] @ sp @ fmt_02X (length bs) @ sp @ ?d"]
        t [of "fmt_02X (length bs) @ sp @ ?d"] fromhex_fmt [OF l(2) assms(7), of ?d] fd
      by (simp del: fromhex.simps)
    then have ck: "checksum ?a = Some ('' '' @ fmt_02X (((128 + length bs)
                      + (16 * hexval h5 + hexval h6) + (16 * hexval h3 + hexval h4) + sum_list bs) mod 256))"
      by (simp add: checksum_def add.assoc add.left_commute del: fromhex.simps)
    show ?thesis
      using False assms(1,6) ck
      by (simp add: uds_answer_def Let_def up hx del: fromhex.simps)
  qed
qed

lemma uds_answer_29bit_no_echo:
  assumes "length (strip_upper h0) = 6" "fromhex data = Some bs"
  shows "uds_answer cs data (PStr h0) False sp None = Inr ([], [LogError ''Unimplemented case.''])"
  using assms by (auto simp: uds_answer_def Let_def simp del: fromhex.simps)

text \<open>
  C2: with a 6-digit header and header echo enabled the reply should carry a one-byte
  length field for every payload shorter than 16 bytes, and a checksum. For a payload of
  10 bytes the encoder takes its extended branch, writes the length as the single digit
  \<open>A\<close>, and the checksum computation raises \<^verbatim>\<open>ValueError\<close> on it: there is no reply.
\<close>

theorem uds_answer_29bit_ten_bytes_raises:
  "uds_answer Map.empty ''00112233445566778899'' (PStr ''DAF110'') True '' '' None = Inl ValueError"
  by code_simp

section \<open>Reset\<close>

text \<open>
  C4: after the reset no key with the prefix \<open>cmd_\<close> keeps an accumulated value: it is
  absent, unless it is a preset (which has its preset value) or the header key (which has
  the default ECU address); every preset key has its preset value; the task table is empty.
  The keys without the prefix (the hit counters of the rows, of the commands and of the
  unknown commands among them) keep their values, but for the presets and the two
  availability counters, which are set to 0.
\<close>

theorem reset_clears_counters_and_tasks:
  "(\<forall>k. take 4 k = ''cmd_'' \<longrightarrow>
      counters (reset e s) k =
        (case presets s k of
           Some v \<Rightarrow> Some v
         | None \<Rightarrow> if k = ''cmd_set_header'' then Some (PStr (ECU_ADDR_E e)) else None))
   \<and> (\<forall>k v. presets s k = Some v \<longrightarrow> counters (reset e s) k = Some v)
   \<and> tasks (reset e s) = Map.empty
   \<and> (\<forall>k. take 4 k \<noteq> ''cmd_'' \<and> presets s k = None \<and> k \<noteq> ''ELM_PIDS_A'' \<and> k \<noteq> ''ELM_MIDS_A''
          \<longrightarrow> counters (reset e s) k = counters s k)"
  by (auto simp: reset_def Let_def map_add_def split: option.splits)

theorem reset_clears_counters_and_tasks_witness:
  "counters (reset demo_env (demo_state\<lparr>counters := [''cmd_echo'' \<mapsto> PInt 0, ''cmd_set_header'' \<mapsto> PStr ''7DF'',
                                                     ''commands'' \<mapsto> PInt 5],
                                        presets := [''cmd_spaces'' \<mapsto> PInt 1],
                                        tasks := [PStr ''7DF'' \<mapsto> new_task Multiline (PStr ''7DF'') ''AA'' True]\<rparr>))
      ''cmd_echo'' = None
   \<and> counters (reset demo_env (demo_state\<lparr>counters := [''cmd_echo'' \<mapsto> PInt 0, ''cmd_set_header'' \<mapsto> PStr ''7DF'',
                                                     ''commands'' \<mapsto> PInt 5],
                                        presets := [''cmd_spaces'' \<mapsto> PInt 1],
                                        tasks := [PStr ''7DF'' \<mapsto> new_task Multiline (PStr ''7DF'') ''AA'' True]\<rparr>))
      ''cmd_set_header'' = Some (PStr ''7E0'')
   \<and> counters (reset demo_env (demo_state\<lparr>counters := [''cmd_echo'' \<mapsto> PInt 0, ''cmd_set_header'' \<mapsto> PStr ''7DF'',
                                                     ''commands'' \<mapsto> PInt 5],
                                        presets := [''cmd_spaces'' \<mapsto> PInt 1],
                                        tasks := [PStr ''7DF'' \<mapsto> new_task Multiline (PStr ''7DF'') ''AA'' True]\<rparr>))
      ''cmd_spaces'' = Some (PInt 1)
   \<and> tasks (reset demo_env (demo_state\<lparr>counters := [''cmd_echo'' \<mapsto> PInt 0, ''cmd_set_header'' \<mapsto> PStr ''7DF'',
                                                     ''commands'' \<mapsto> PInt 5],
                                        presets := [''cmd_spaces'' \<mapsto> PInt 1],
                                        tasks := [PStr ''7DF'' \<mapsto> new_task Multiline (PStr ''7DF'') ''AA'' True]\<rparr>))
      = Map.empty
   \<and> counters (reset demo_env (demo_state\<lparr>counters := [''cmd_echo'' \<mapsto> PInt 0, ''cmd_set_header'' \<mapsto> PStr ''7DF'',
                                                     ''commands'' \<mapsto> PInt 5],
                                        presets := [''cmd_spaces'' \<mapsto> PInt 1],
                                        tasks := [PStr ''7DF'' \<mapsto> new_task Multiline (PStr ''7DF'') ''AA'' True]\<rparr>))
      ''commands'' = Some (PInt 5)"
proof -
  let ?s = "demo_state\<lparr>counters := [''cmd_echo'' \<mapsto> PInt 0, ''cmd_set_header'' \<mapsto> PStr ''7DF'',
                                      ''commands'' \<mapsto> PInt 5],
                        presets := [''cmd_spaces'' \<mapsto> PInt 1],
                        tasks := [PStr ''7DF'' \<mapsto> new_task Multiline (PStr ''7DF'') ''AA'' True]\<rparr>"
  note r = reset_clears_counters_and_tasks [of demo_env ?s]
  from r have a: "counters (reset demo_env ?s) ''cmd_echo'' = None"
    by (simp add: demo_state_def)
  from r have b: "counters (reset demo_env ?s) ''cmd_set_header'' = Some (PStr ''7E0'')"
    by (simp add: demo_state_def demo_env_def)
  from r have c: "counters (reset demo_env ?s) ''cmd_spaces'' = Some (PInt 1)"
    by (simp add: demo_state_def)
  from r have d: "tasks (reset demo_env ?s) = Map.empty"
    by simp
  from r have f: "counters (reset demo_env ?s) ''commands'' = Some (PInt 5)"
    by (simp add: demo_state_def)
  from a b c d f show ?thesis by simp
qed

section \<open>Unknown commands\<close>

lemma resolve_no_match:
  "(\<forall>x\<in>set cat. \<not> request_matches (snd x) cmd) \<Longrightarrow>
     resolve e s header w cmd len frm cat = unknown_cmd e s header cmd"
  by (induction cat) auto

lemma incr_counter_ok:
  "numeric_or_absent cs k \<Longrightarrow> \<exists>n. incr_counter cs k = Inr (cs(k \<mapsto> PInt n))"
  by (auto simp: numeric_or_absent_def incr_counter_def split: option.splits pyval.splits)

lemma incr_counter_count:
  "cs k = None \<and> n = 0 \<or> cs k = Some (PInt n) \<Longrightarrow> incr_counter cs k = Inr (cs(k \<mapsto> PInt (n + 1)))"
  by (auto simp: incr_counter_def)

text \<open>
  C6, as stated, fails on the empty command: it matches no row of an empty catalog, and
  the reply is the empty string, neither marker.
\<close>

theorem empty_command_reply_counterexample:
  "reply_of (handle_request demo_env demo_state [] True) = Some (PStr ''7E0'', [], Some [])"
  by code_simp

text \<open>
  C6, amended: a non-empty command that matches no row of the catalog, with a per-text
  counter that can be incremented and a header that, when there is one, is set in the
  counters (as the header that \<open>handle_request\<close> reads there is), is answered with
  \<open>ST 'NO DATA'\<close> when it is one or more whole hexadecimal bytes and with
  \<open>ELM_R_UNKNOWN\<close> otherwise; the request returns, it does not raise.
\<close>

theorem unknown_reply:
  assumes "\<forall>x\<in>set cat. \<not> request_matches (snd x) cmd"
    and "cmd \<noteq> []"
    and "numeric_or_absent (counters s) (''unknown_'' @ repr cmd)"
    and "truthy header \<longrightarrow> counters s ''cmd_set_header'' \<noteq> None"
  shows "\<exists>s'. resolve e s header w cmd len frm cat =
            Inr ((header, cmd, Some (if len_hex cmd \<noteq> 0 then ST e ''NO DATA'' else ELM_R_UNKNOWN e)), s')"
proof -
  obtain n where "incr_counter (counters s) (''unknown_'' @ repr cmd)
                    = Inr ((counters s)(''unknown_'' @ repr cmd \<mapsto> PInt n))"
    using incr_counter_ok [OF assms(3)] by blast
  then show ?thesis
    using assms(2,4) by (auto simp: resolve_no_match [OF assms(1)] unknown_cmd_def Let_def)
qed

theorem unknown_reply_witness:
  "\<exists>s'. resolve demo_env demo_state (PStr ''7E0'') True ''ATXYZ'' None None
            [(''SPEED'', plain_entry (\<lambda>c. take 4 c = ''010D'') ''DEFAULT'')] =
          Inr ((PStr ''7E0'', ''ATXYZ'', Some ''?''), s')"
proof -
  have a: "\<forall>x\<in>set [(''SPEED'', plain_entry (\<lambda>c. take 4 c = ''010D'') ''DEFAULT'')].
             \<not> request_matches (snd x) ''ATXYZ''"
    by (simp add: request_matches_def plain_entry_def)
  have b: "''ATXYZ'' \<noteq> []" by simp
  have c: "numeric_or_absent (counters demo_state) (''unknown_'' @ repr ''ATXYZ'')"
    by (simp add: numeric_or_absent_def demo_state_def)
  have d: "len_hex ''ATXYZ'' = 0" by code_simp
  have h: "truthy (PStr ''7E0'') \<longrightarrow> counters demo_state ''cmd_set_header'' \<noteq> None"
    by (simp add: demo_state_def)
  show ?thesis
    using unknown_reply [OF a b c h, of demo_env True None None]
    by (simp add: d demo_env_def)
qed

text \<open>
  C7, as stated, fails: the per-text counter is incremented at every occurrence, so after
  the same unknown command has come twice it is 2.
\<close>

theorem unknown_counter_twice_counterexample:
  "counters (state_after (handle_request demo_env
               (state_after (handle_request demo_env demo_state ''atxyz'' True)) ''atxyz'' True))
     (''unknown_'' @ repr ''ATXYZ'') = Some (PInt 2)"
  by code_simp

text \<open>
  C7, amended: each occurrence of an unknown command adds one to the counter of its text,
  so the counter is the number of occurrences; the warning is logged exactly when the
  command is not empty, the forwarding collaborator answered something other than
  \<open>NO DATA\<close> or \<open>?\<close>, and the occurrence is the first (the counter was absent or 0).
  The header, when there is one, is set in the counters.
\<close>

theorem unknown_counter_counts:
  assumes "\<forall>x\<in>set cat. \<not> request_matches (snd x) cmd"
    and "counters s (''unknown_'' @ repr cmd) = None \<and> n = 0
         \<or> counters s (''unknown_'' @ repr cmd) = Some (PInt n)"
    and "truthy header \<longrightarrow> counters s ''cmd_set_header'' \<noteq> None"
  shows "\<exists>r s' new. resolve e s header w cmd len frm cat = Inr (r, s')
           \<and> counters s' (''unknown_'' @ repr cmd) = Some (PInt (n + 1))
           \<and> logs s' = logs s @ new
           \<and> (LogWarning ''Missing data in dictionary: %s. Answer:%s'' \<in> set new) =
               (cmd \<noteq> [] \<and> send_receive_forward e (cmd @ [CHR 0x0D]) \<noteq> FwFalse
                \<and> \<not> re_match NO_DATA_pattern
                      (case send_receive_forward e (cmd @ [CHR 0x0D]) of FwData x \<Rightarrow> x | _ \<Rightarrow> [])
                \<and> \<not> re_match question_pattern
                      (case send_receive_forward e (cmd @ [CHR 0x0D]) of FwData x \<Rightarrow> x | _ \<Rightarrow> [])
                \<and> n = 0)"
  using incr_counter_count [of "counters s" "''unknown_'' @ repr cmd" n] assms(2,3)
  by (auto simp: resolve_no_match [OF assms(1)] unknown_cmd_def Let_def)

theorem unknown_counter_counts_witness:
  "\<exists>r s' new. resolve (demo_env\<lparr>send_receive_forward := (\<lambda>x. FwData ''41 0D 00'')\<rparr>) demo_state
                  (PStr ''7E0'') True ''010D'' None None [] = Inr (r, s')
     \<and> counters s' (''unknown_'' @ repr ''010D'') = Some (PInt 1)
     \<and> logs s' = logs demo_state @ new
     \<and> LogWarning ''Missing data in dictionary: %s. Answer:%s'' \<in> set new"
proof -
  have a: "\<forall>x\<in>set ([] :: catalog). \<not> request_matches (snd x) ''010D''" by simp
  have b: "counters demo_state (''unknown_'' @ repr ''010D'') = None \<and> (0::int) = 0
           \<or> counters demo_state (''unknown_'' @ repr ''010D'') = Some (PInt 0)"
    by (simp add: demo_state_def)
  have c: "\<not> re_match NO_DATA_pattern ''41 0D 00''" by code_simp
  have d: "\<not> re_match question_pattern ''41 0D 00''" by code_simp
  have h: "truthy (PStr ''7E0'') \<longrightarrow> counters demo_state ''cmd_set_header'' \<noteq> None"
    by (simp add: demo_state_def)
  show ?thesis
    using unknown_counter_counts [OF a b h, of "demo_env\<lparr>send_receive_forward := (\<lambda>x. FwData ''41 0D 00'')\<rparr>"
            True None None] c d
    by simp
qed

section \<open>The length prefix of a request\<close>

lemma match_star_anchored:
  "cls (CHR 0x0A) \<Longrightarrow> match_items [(cls, Star)] True s = list_all cls s"
  by (induction s) auto

lemma is_hex_sp_iff:
  "is_hex_sp s = list_all (\<lambda>c. is_hexdigit c \<or> ord c = 32 \<or> ord c = 9 \<or> ord c = 13 \<or> ord c = 10) s"
  unfolding is_hex_sp_def re_match_def hex_sp_pattern_def fst_conv snd_conv
  by (rule match_star_anchored) (simp add: ord_def)

lemma hexdigit_cases:
  "is_hexdigit c \<Longrightarrow> \<not> int_space c \<and> c \<noteq> CHR ''-'' \<and> c \<noteq> CHR ''+'' \<and> c \<noteq> CHR ''_''
     \<and> c \<noteq> CHR ''x'' \<and> c \<noteq> CHR ''X'' \<and> c \<noteq> CHR ''T'' \<and> hexval c < 16"
  by (auto simp: is_hexdigit_def is_digit_def int_space_def is_space_def ord_def hexval_def is_lower_def)

lemma int16_pair:
  assumes "is_hexdigit a" "is_hexdigit b"
  shows "int16 [a, b] = Some (int (16 * hexval a + hexval b))"
  using hexdigit_cases [OF assms(1)] hexdigit_cases [OF assms(2)] assms
  by (simp add: int16_def int_unsigned16_def)

lemma pci_stage_eq:
  assumes "pci_byte_in_requests cs" "is_hexdigit a" "is_hexdigit b" "payload \<noteq> []"
  shows "pci_stage cs (a # b # payload) =
     (let n = int (16 * hexval a + hexval b) in
      if n < 16 then
        (if int (length payload) < n * 2
         then Reject (LogError ''In request %s, data %s has an improper length of %s bytes'')
         else Parsed (take (nat (n * 2)) payload) (Some n) None)
      else if n = 16 then
        (case int16 (take 2 payload) of
           None \<Rightarrow> Reject (LogError ''Improper size %s for request %s: %s'')
         | Some len \<Rightarrow> Parsed (drop 2 payload) (Some len) (Some 0))
      else if 32 < n then Parsed payload None (Some (n - 32))
      else Parsed payload None None)"
proof -
  have "[a, b] \<noteq> ''AT''" using hexdigit_cases [OF assms(3)] by simp
  moreover have "is_hex_sp [a, b]" using assms(2,3) by (simp add: is_hex_sp_iff)
  ultimately show ?thesis
    using assms(1,4) int16_pair [OF assms(2,3)]
    by (simp add: pci_stage_def Let_def slice_to_def split: option.splits)
qed

text \<open>
  C3, as stated, fails on a request that is only the two size digits: the request
  \<open>21\<close> (value 33) is answered with the empty string after the missing data is logged;
  no consecutive frame comes of it.
\<close>

theorem pci_empty_payload_counterexample:
  "reply_of (handle_request demo_env (demo_state\<lparr>counters := [''cmd_set_header'' \<mapsto> PStr ''7E0'', ''cmd_caf'' \<mapsto> PBool False]\<rparr>) ''21'' True)
     = Some (PStr ''7E0'', ''21'', Some [])"
  by code_simp

text \<open>
  C3, amended: with the PCI byte in requests, a request that starts with two hexadecimal
  digits of value \<open>n\<close> and goes on with at least one more character is parsed so: for
  \<open>n < 16\<close> the payload is cut to \<open>2 n\<close> digits and the length is \<open>n\<close>, and the
  request is rejected when the payload is shorter; for \<open>n = 16\<close> the length is the value
  of the next pair (below 256 when the pair is two hexadecimal digits; the request is
  rejected when the pair is no number) and the frame is 0; for \<open>n > 32\<close> the frame is
  \<open>n - 32\<close> and there is no length.
\<close>

theorem pci_stage_sizes:
  assumes "pci_byte_in_requests cs" "is_hexdigit a" "is_hexdigit b" "payload \<noteq> []"
    and "n = int (16 * hexval a + hexval b)"
  shows "(n < 16 \<longrightarrow>
            pci_stage cs (a # b # payload) =
              (if int (length payload) < n * 2
               then Reject (LogError ''In request %s, data %s has an improper length of %s bytes'')
               else Parsed (take (nat (n * 2)) payload) (Some n) None))
       \<and> (n = 16 \<longrightarrow>
            pci_stage cs (a # b # payload) =
              (case int16 (take 2 payload) of
                 None \<Rightarrow> Reject (LogError ''Improper size %s for request %s: %s'')
               | Some len \<Rightarrow> Parsed (drop 2 payload) (Some len) (Some 0)))
       \<and> (n = 16 \<longrightarrow> (\<forall>c d rest. payload = c # d # rest \<and> is_hexdigit c \<and> is_hexdigit d \<longrightarrow>
            pci_stage cs (a # b # payload) = Parsed rest (Some (int (16 * hexval c + hexval d))) (Some 0)
            \<and> 16 * hexval c + hexval d < 256))
       \<and> (32 < n \<longrightarrow> pci_stage cs (a # b # payload) = Parsed payload None (Some (n - 32)))"
proof -
  have ff: "pci_stage cs (a # b # payload) = Parsed rest (Some (int (16 * hexval c + hexval d))) (Some 0)
            \<and> 16 * hexval c + hexval d < 256"
    if "n = 16" "payload = c # d # rest" "is_hexdigit c" "is_hexdigit d" for c d rest
    using pci_stage_eq [OF assms(1-4)] assms(5) that int16_pair [OF that(3,4)]
      hexdigit_cases [OF that(3)] hexdigit_cases [OF that(4)]
    by (simp add: Let_def)
  show ?thesis
    using pci_stage_eq [OF assms(1-4)] assms(5) ff
    by (auto simp: Let_def)
qed

theorem pci_stage_sizes_witness:
  "pci_stage [''cmd_caf'' \<mapsto> PBool False] ''020902'' = Parsed ''0902'' (Some 2) None
   \<and> pci_stage [''cmd_caf'' \<mapsto> PBool False] ''100A2EF190'' = Parsed ''2EF190'' (Some 10) (Some 0)
   \<and> pci_stage [''cmd_caf'' \<mapsto> PBool False] ''214142'' = Parsed ''4142'' None (Some 1)"
proof -
  have p: "pci_byte_in_requests [''cmd_caf'' \<mapsto> PBool False]"
    by (simp add: pci_byte_in_requests_def)
  have h: "is_hexdigit CHR ''0''" "is_hexdigit CHR ''1''" "is_hexdigit CHR ''2''" "is_hexdigit CHR ''A''"
    by code_simp+
  have v: "hexval CHR ''0'' = 0" "hexval CHR ''1'' = 1" "hexval CHR ''2'' = 2" "hexval CHR ''A'' = 10"
    by code_simp+
  have i: "int16 ''0A'' = Some 10" by code_simp
  have a: "pci_stage [''cmd_caf'' \<mapsto> PBool False] ''020902'' = Parsed ''0902'' (Some 2) None"
    using pci_stage_sizes [OF p h(1) h(3), of "''0902''" 2] by (simp add: v)
  have b: "pci_stage [''cmd_caf'' \<mapsto> PBool False] ''100A2EF190'' = Parsed ''2EF190'' (Some 10) (Some 0)"
    using pci_stage_sizes [OF p h(2) h(1), of "''0A2EF190''" 16] i by (simp add: v)
  have c: "pci_stage [''cmd_caf'' \<mapsto> PBool False] ''214142'' = Parsed ''4142'' None (Some 1)"
    using pci_stage_sizes [OF p h(3) h(2), of "''4142''" 33] by (simp add: v)
  from a b c show ?thesis by simp
qed

section \<open>The first-come header mode\<close>

text \<open>
  C8, as stated, fails: with the mode on, the request \<open>7E0020902\<close> reaches the catalog
  as \<open>0902\<close>: after the header \<open>7E0\<close> was taken, the remainder \<open>020902\<close> was parsed
  for its size prefix \<open>02\<close>.
\<close>

theorem fcsm_request_size_prefix_counterexample:
  "reply_of (handle_request demo_env (demo_state\<lparr>counters := [''cmd_fcsm'' \<mapsto> PInt 1]\<rparr>) ''7E0020902'' True)
     = Some (PStr ''7E0'', ''0902'', Some ''<string>NO DATA</string>'')"
  by code_simp

text \<open>
  C8, amended: with the mode on, a request that starts with three hexadecimal digits
  has them taken as the header and stripped, header echo is set, and the CAF counter is
  set to false, which is the condition for the PCI byte in requests: the remainder is
  parsed for a size prefix.
\<close>

theorem fcsm_stage_enables_pci:
  assumes "counters s ''cmd_fcsm'' = Some v" "truthy v"
    and "3 \<le> length cmd" "list_all is_hexdigit (take 3 cmd)"
  shows "\<exists>s'. fcsm_stage s header cmd = (s', PStr (take 3 cmd), drop 3 cmd)
           \<and> counters s' ''cmd_set_header'' = Some (PStr (take 3 cmd))
           \<and> counters s' ''cmd_use_header'' = Some (PBool True)
           \<and> counters s' ''cmd_caf'' = Some (PBool False)
           \<and> pci_byte_in_requests (counters s')
           \<and> (\<forall>a b payload. drop 3 cmd = a # b # payload \<and> is_hexdigit a \<and> is_hexdigit b \<and> payload \<noteq> []
                  \<and> 16 * hexval a + hexval b < 16 \<and> 2 * (16 * hexval a + hexval b) \<le> length payload
                \<longrightarrow> pci_stage (counters s') (drop 3 cmd)
                      = Parsed (take (2 * (16 * hexval a + hexval b)) payload)
                               (Some (int (16 * hexval a + hexval b))) None)"
proof -
  obtain x y z rest where c: "cmd = x # y # z # rest"
    using assms(3) by (cases cmd; cases "tl cmd"; cases "tl (tl cmd)") auto
  have hx: "is_hexdigit x" "is_hexdigit y" "is_hexdigit z" using assms(4) c by simp_all
  have at: "take 2 cmd \<noteq> ''AT''" using c hexdigit_cases [OF hx(2)] by simp
  have sp: "is_hex_sp (take 3 cmd)" using c hx by (simp add: is_hex_sp_iff)
  let ?s' = "s\<lparr>counters := (counters s)(''cmd_set_header'' \<mapsto> PStr (take 3 cmd),
                                        ''cmd_caf'' \<mapsto> PBool False,
                                        ''cmd_use_header'' \<mapsto> PBool True)\<rparr>"
  have st: "fcsm_stage s header cmd = (?s', PStr (take 3 cmd), drop 3 cmd)"
    using assms(1,2) at sp by (simp add: fcsm_stage_def)
  have pci: "pci_byte_in_requests (counters ?s')"
    by (simp add: pci_byte_in_requests_def)
  have parse: "pci_stage (counters ?s') (drop 3 cmd)
                 = Parsed (take (2 * (16 * hexval a + hexval b)) payload)
                          (Some (int (16 * hexval a + hexval b))) None"
    if "drop 3 cmd = a # b # payload" "is_hexdigit a" "is_hexdigit b" "payload \<noteq> []"
       "16 * hexval a + hexval b < 16" "2 * (16 * hexval a + hexval b) \<le> length payload"
    for a b payload
  proof -
    have z: "hexval a = 0" using that(5) by simp
    have n: "nat (int (hexval b) * 2) = 2 * hexval b" by (simp add: nat_mult_distrib)
    show ?thesis
      using pci_stage_eq [OF pci that(2,3,4)] that(1,5,6)
      by (simp add: Let_def z n)
  qed
  show ?thesis
    using st pci parse by (intro exI [of _ ?s']) (simp)
qed

theorem fcsm_stage_enables_pci_witness:
  "\<exists>s'. fcsm_stage (demo_state\<lparr>counters := [''cmd_fcsm'' \<mapsto> PInt 1]\<rparr>) PNone ''7E0020902''
           = (s', PStr ''7E0'', ''020902'')
     \<and> counters s' ''cmd_use_header'' = Some (PBool True)
     \<and> pci_byte_in_requests (counters s')
     \<and> pci_stage (counters s') ''020902'' = Parsed ''0902'' (Some 2) None"
proof -
  have a: "counters (demo_state\<lparr>counters := [''cmd_fcsm'' \<mapsto> PInt 1]\<rparr>) ''cmd_fcsm'' = Some (PInt 1)"
    by simp
  have b: "truthy (PInt 1)" by simp
  have c: "3 \<le> length ''7E0020902''" by simp
  have d: "list_all is_hexdigit (take 3 ''7E0020902'')" by code_simp
  have h: "is_hexdigit CHR ''0''" "is_hexdigit CHR ''2''" by code_simp+
  have v: "hexval CHR ''0'' = 0" "hexval CHR ''2'' = 2" by code_simp+
  show ?thesis
    using fcsm_stage_enables_pci [OF a b c d, of PNone] h
    by (auto simp: v)
qed

section \<open>Frames out of sequence\<close>





section \<open>Catalog layers and priority\<close>















section \<open>Multi-frame reassembly\<close>

lemma flow_template: "parse_flow (''<flow>'' @ hex_from2_upper 0x20 @ '' 00</flow>'') = Some ''20 00''"
  by code_simp

lemma flow_control_step_ok:
  assumes "t_flow_control_end t = 0x20" "flow_reply_ok (counters s) (t_header t)"
  shows "\<exists>x s'. flow_control_step e s t cmd = Inr (t\<lparr>t_flow_control := x\<rparr>, s')
           \<and> counters s' = counters s \<and> tasks s' = tasks s"
proof (cases "t_flow_control t \<noteq> 0")
  case True
  then show ?thesis by (auto simp: flow_control_step_def)
next
  case False
  show ?thesis
  proof (cases "counters s ''cmd_cfc'' = None \<or> py_eq (the (counters s ''cmd_cfc'')) (PInt 1)")
    case True
    then obtain answ l where r: "render_flow (counters s) ''20 00'' (t_header t) = Inr (answ, l)"
      using assms(2) by (auto simp: flow_reply_ok_def split: sum.splits)
    have "\<exists>s'. handle_response e s (''<flow>'' @ hex_from2_upper (t_flow_control_end t) @ '' 00</flow>'')
                   (t_do_write t) (t_header t) (Some cmd) = Inr (Some answ, s')
                \<and> counters s' = counters s \<and> tasks s' = tasks s"
      using r flow_template by (simp add: handle_response_def assms(1))
    then show ?thesis using False True
      by (auto simp: flow_control_step_def)
  next
    case c: False
    then show ?thesis using False by (auto simp: flow_control_step_def)
  qed
qed

lemma Multiline_finish_eq:
  assumes "t_length t = Some L" "t_req t = Some r" "0 \<le> L"
  shows "Multiline_finish t s =
           (if 2 * L \<le> int (length r)
            then Inr (PASSTHROUGH (take (nat (2 * L)) r), t\<lparr>t_frame := None\<rparr>, s)
            else Inr (INCOMPLETE, t, s))"
  using assms by (simp add: Multiline_finish_def slice_to_def mult.commute)

lemma run_first_frame:
  assumes "0 < L" "flow_reply_ok (counters s) header"
  shows "\<exists>t' s'. Multiline_run e s (new_task Multiline header c w) p0 (Some L) (Some 0)
             = Inr ((if 2 * L \<le> int (length p0) then PASSTHROUGH (take (nat (2 * L)) p0) else INCOMPLETE), t', s')
           \<and> counters s' = counters s \<and> tasks s' = tasks s \<and> t_kind t' = Multiline
           \<and> (\<not> 2 * L \<le> int (length p0) \<longrightarrow> collecting t' header L 1 p0)"
proof -
  let ?t = "(new_task Multiline header c w)\<lparr>t_req := Some p0, t_frame := Some 1, t_length := Some L\<rparr>"
  have a: "t_flow_control_end ?t = 0x20" "t_header ?t = header" by (simp_all add: new_task_def)
  obtain x s' where st: "flow_control_step e s ?t p0 = Inr (?t\<lparr>t_flow_control := x\<rparr>, s')"
      "counters s' = counters s" "tasks s' = tasks s"
    using flow_control_step_ok [of ?t s e p0] assms(2) a by auto
  have fin: "Multiline_finish (?t\<lparr>t_flow_control := x\<rparr>) s' =
           (if 2 * L \<le> int (length p0)
            then Inr (PASSTHROUGH (take (nat (2 * L)) p0), ?t\<lparr>t_flow_control := x, t_frame := None\<rparr>, s')
            else Inr (INCOMPLETE, ?t\<lparr>t_flow_control := x\<rparr>, s'))"
    using assms(1) by (subst Multiline_finish_eq [where L = L and r = p0]) simp_all
  have run: "Multiline_run e s (new_task Multiline header c w) p0 (Some L) (Some 0)
               = Multiline_finish (?t\<lparr>t_flow_control := x\<rparr>) s'"
    using assms(1) st(1) by (simp add: Multiline_run_def new_task_def)
  show ?thesis
    unfolding run fin using st(2,3)
    by (auto simp: collecting_def new_task_def)
qed

lemma run_consecutive:
  assumes "collecting t header L n acc" "0 < n" "0 < L" "flow_reply_ok (counters s) header"
  shows "\<exists>t' s'. Multiline_run e s t p None (Some n)
             = Inr ((if 2 * L \<le> int (length (acc @ p)) then PASSTHROUGH (take (nat (2 * L)) (acc @ p))
                     else INCOMPLETE), t', s')
           \<and> counters s' = counters s \<and> tasks s' = tasks s \<and> t_kind t' = Multiline
           \<and> (\<not> 2 * L \<le> int (length (acc @ p)) \<longrightarrow> collecting t' header L (n + 1) (acc @ p))"
proof -
  let ?t = "t\<lparr>t_req := Some (acc @ p), t_frame := Some (n + 1)\<rparr>"
  have c: "t_kind t = Multiline" "t_header t = header" "t_frame t = Some n" "t_length t = Some L"
      "t_req t = Some acc" "t_flow_control_end t = 0x20"
    using assms(1) by (simp_all add: collecting_def)
  have a: "t_flow_control_end ?t = 0x20" "t_header ?t = header" using c by simp_all
  obtain x s' where st: "flow_control_step e s ?t p = Inr (?t\<lparr>t_flow_control := x\<rparr>, s')"
      "counters s' = counters s" "tasks s' = tasks s"
    using flow_control_step_ok [of ?t s e p] assms(4) a by auto
  have fin: "Multiline_finish (?t\<lparr>t_flow_control := x\<rparr>) s' =
           (if 2 * L \<le> int (length (acc @ p))
            then Inr (PASSTHROUGH (take (nat (2 * L)) (acc @ p)), ?t\<lparr>t_flow_control := x, t_frame := None\<rparr>, s')
            else Inr (INCOMPLETE, ?t\<lparr>t_flow_control := x\<rparr>, s'))"
    using assms(3) c by (subst Multiline_finish_eq [where L = L and r = "acc @ p"]) simp_all
  have run: "Multiline_run e s t p None (Some n) = Multiline_finish (?t\<lparr>t_flow_control := x\<rparr>) s'"
    using assms(2) c st(1) by (simp add: Multiline_run_def)
  show ?thesis
    unfolding run fin using st(2,3) c
    by (auto simp: collecting_def)
qed

lemma task_stage_incomplete:
  assumes "tasks s (hkey header) = Some t" "t_kind t = Multiline" "len_hex p \<noteq> 0"
    and "Multiline_run e s t p len frm = Inr (INCOMPLETE, t', s1)"
    and "counters s1 = counters s" "tasks s1 = tasks s"
  shows "\<exists>s'. task_stage e s header w p len frm = Inr (Return None, s')
           \<and> counters s' = counters s \<and> tasks s' (hkey header) = Some t'"
  using assms
  by (simp add: task_stage_def task_action_def call_method_def INCOMPLETE_def CONTINUE_def TERMINATE_def)

lemma task_stage_complete:
  assumes "tasks s (hkey header) = Some t" "t_kind t = Multiline" "len_hex p \<noteq> 0"
    and "Multiline_run e s t p len frm = Inr (PASSTHROUGH c, t', s1)"
    and "counters s1 = counters s" "tasks s1 = tasks s" "t_kind t' = Multiline"
    and "numeric_or_absent (counters s) []"
  shows "\<exists>s'. task_stage e s header w p len frm = Inr (Proceed c None None, s')
           \<and> tasks s' (hkey header) = None"
proof -
  obtain n where n: "incr_counter (counters s) [] = Inr ((counters s)([] \<mapsto> PInt n))"
    using incr_counter_ok [OF assms(8)] by blast
  show ?thesis
    using assms(1-7) n
    by (simp add: task_stage_def task_action_def call_method_def PASSTHROUGH_def TERMINATE_def
        account_task_def del_task_def)
qed

lemma consecutive_frames_Cons:
  "consecutive_frames n (p # ps) = (p, None, Some (int n)) # consecutive_frames (Suc n) ps"
  by (simp add: consecutive_frames_def)

lemma feed_consecutive:
  assumes "ps \<noteq> []" "0 < L" "0 < n"
    and "flow_reply_ok (counters s) header" "numeric_or_absent (counters s) []"
    and "tasks s (hkey header) = Some t" "collecting t header L (int n) acc"
    and "\<forall>p\<in>set ps. len_hex p \<noteq> 0"
    and "\<forall>j<length ps. int (length (acc @ concat (take j ps))) < 2 * L"
    and "2 * L \<le> int (length (acc @ concat ps))"
  shows "\<exists>s'. feed e s header w (consecutive_frames n ps)
             = Inr (replicate (length ps - 1) (Return None)
                      @ [Proceed (take (nat (2 * L)) (acc @ concat ps)) None None], s')
           \<and> tasks s' (hkey header) = None"
  using assms
proof (induction ps arbitrary: s t n acc)
  case Nil
  then show ?case by simp
next
  case (Cons p ps)
  have kind: "t_kind t = Multiline" using Cons.prems(7) by (simp add: collecting_def)
  have hex: "len_hex p \<noteq> 0" using Cons.prems(8) by simp
  have pos: "0 < int n" using Cons.prems(3) by simp
  from run_consecutive [OF Cons.prems(7) pos Cons.prems(2) Cons.prems(4), of e p]
  obtain t' s1 where run:
      "Multiline_run e s t p None (Some (int n))
         = Inr ((if 2 * L \<le> int (length (acc @ p)) then PASSTHROUGH (take (nat (2 * L)) (acc @ p))
                 else INCOMPLETE), t', s1)"
      "counters s1 = counters s" "tasks s1 = tasks s" "t_kind t' = Multiline"
      "\<not> 2 * L \<le> int (length (acc @ p)) \<longrightarrow> collecting t' header L (int n + 1) (acc @ p)"
    by blast
  show ?case
  proof (cases "ps = []")
    case True
    then have full: "2 * L \<le> int (length (acc @ p))" using Cons.prems(10) by simp
    have run': "Multiline_run e s t p None (Some (int n))
                  = Inr (PASSTHROUGH (take (nat (2 * L)) (acc @ p)), t', s1)"
      using run(1) full by (simp only: if_True)
    from task_stage_complete [where w = w, OF Cons.prems(6) kind hex run' run(2,3,4) Cons.prems(5)]
    obtain s' where "task_stage e s header w p None (Some (int n))
                       = Inr (Proceed (take (nat (2 * L)) (acc @ p)) None None, s')"
        "tasks s' (hkey header) = None"
      by blast
    then show ?thesis using True by (simp add: consecutive_frames_Cons consecutive_frames_def)
  next
    case False
    have part: "\<not> 2 * L \<le> int (length (acc @ p))"
      using Cons.prems(9) [rule_format, of 1] False by (cases ps) auto
    have run': "Multiline_run e s t p None (Some (int n)) = Inr (INCOMPLETE, t', s1)"
      using run(1) part by (simp only: if_False)
    from task_stage_incomplete [where w = w, OF Cons.prems(6) kind hex run' run(2,3)]
    obtain s2 where s2: "task_stage e s header w p None (Some (int n)) = Inr (Return None, s2)"
        "counters s2 = counters s" "tasks s2 (hkey header) = Some t'"
      by blast
    have col: "collecting t' header L (int (Suc n)) (acc @ p)"
      using run(5) part by (simp add: add.commute)
    have before: "\<forall>j<length ps. int (length ((acc @ p) @ concat (take j ps))) < 2 * L"
    proof (intro allI impI)
      fix j assume "j < length ps"
      then show "int (length ((acc @ p) @ concat (take j ps))) < 2 * L"
        using Cons.prems(9) [rule_format, of "Suc j"] by simp
    qed
    have total: "2 * L \<le> int (length ((acc @ p) @ concat ps))"
      using Cons.prems(10) by simp
    have f: "flow_reply_ok (counters s2) header" "numeric_or_absent (counters s2) []"
      using Cons.prems(4,5) s2(2) by simp_all
    have hx: "\<forall>p\<in>set ps. len_hex p \<noteq> 0" using Cons.prems(8) by simp
    from Cons.IH [OF False Cons.prems(2) _ f s2(3) col hx before total]
    obtain s' where "feed e s2 header w (consecutive_frames (Suc n) ps)
             = Inr (replicate (length ps - 1) (Return None)
                      @ [Proceed (take (nat (2 * L)) ((acc @ p) @ concat ps)) None None], s')"
        "tasks s' (hkey header) = None"
      by auto
    then show ?thesis using s2(1) False
      by (cases ps) (simp_all add: consecutive_frames_Cons)
  qed
qed

lemma task_stage_creates:
  "tasks s (hkey header) = None \<Longrightarrow>
     task_stage e s header w p (Some L) (Some f)
       = task_stage e (s\<lparr>tasks := (tasks s)(hkey header \<mapsto> new_task Multiline header p w)\<rparr>)
           header w p (Some L) (Some f)"
  by (simp add: task_stage_def)

text \<open>
  A session of two requests with the PCI byte in requests: the First Frame declares three
  bytes and brings two, the Consecutive Frame brings two more; the second request is
  resolved in the catalog as the command of the three bytes.
\<close>

lemma multiframe_session_example:
  "reply_of (handle_request demo_env
       (state_after (handle_request demo_env
           (demo_state\<lparr>counters := [''cmd_set_header'' \<mapsto> PStr ''7E0'', ''cmd_caf'' \<mapsto> PBool False]\<rparr>)
           ''10 03 AA BB'' True))
       ''21 CC DD'' True)
     = Some (PStr ''7E0'', ''AABBCC'', Some ''<string>NO DATA</string>'')"
  by code_simp

text \<open>
  C1, as stated, fails. Nine bytes are declared; the First Frame brings one and each of
  eight Consecutive Frames one more. With the indices taken modulo 8 the eighth frame
  has index 0: the task expects 8, the frame ends the task with an error, and no
  command is passed on although 18 digits have come. A frame whose payload is not whole
  bytes also ends the task: after it the last frame goes to the catalog by itself.
\<close>

theorem multiframe_wrapped_index_counterexample:
  "stage_results (feed demo_env demo_state (PStr ''7E0'') True
      ((''AA'', Some 9, Some 0) #
       map (\<lambda>i. (''BB'', None, Some i)) [1, 2, 3, 4, 5, 6, 7, 0]))
     = Some (replicate 9 (Return None))
   \<and> stage_results (feed demo_env demo_state (PStr ''7E0'') True
      [(''AA'', Some 3, Some 0), (''BBB'', None, Some 1), (''BCC'', None, Some 2)])
     = Some [Return None, Return None, Proceed ''BCC'' None (Some 2)]"
  by code_simp

text \<open>
  C1, amended: no task is on the header; the First Frame declares \<open>L > 0\<close> bytes and
  has frame 0, the \<open>i\<close>-th Consecutive Frame has frame \<open>i\<close> (counting on without a
  wrap) and no length, every payload is one or more whole bytes, and the payload reaches \<open>2 L\<close>
  digits with the last frame and not before. Then every frame but the last returns no
  response, the last one passes the concatenation cut to \<open>2 L\<close> digits on to the catalog
  with no length and no frame, once, and the task is gone from the table. The
  flow-control replies must render and the completion counter must be one that can be
  incremented.
\<close>

theorem multiframe_reassembly:
  assumes "tasks s (hkey header) = None" "0 < L"
    and "\<forall>p\<in>set (p0 # ps). len_hex p \<noteq> 0"
    and "flow_reply_ok (counters s) header" "numeric_or_absent (counters s) []"
    and "\<forall>j<length ps. int (length (concat (p0 # take j ps))) < 2 * L"
    and "2 * L \<le> int (length (concat (p0 # ps)))"
  shows "\<exists>s'. feed e s header w (exchange p0 L ps)
             = Inr (replicate (length ps) (Return None)
                      @ [Proceed (take (nat (2 * L)) (concat (p0 # ps))) None None], s')
           \<and> tasks s' (hkey header) = None"
proof -
  let ?t0 = "new_task Multiline header p0 w"
  let ?s0 = "s\<lparr>tasks := (tasks s)(hkey header \<mapsto> ?t0)\<rparr>"
  have st0: "tasks ?s0 (hkey header) = Some ?t0" "t_kind ?t0 = Multiline"
    by (simp_all add: new_task_def)
  have hex: "len_hex p0 \<noteq> 0" using assms(3) by simp
  have fl: "flow_reply_ok (counters ?s0) header" "numeric_or_absent (counters ?s0) []"
    using assms(4,5) by simp_all
  from run_first_frame [OF assms(2) fl(1), of e p0 w p0]
  obtain t' s1 where run:
      "Multiline_run e ?s0 ?t0 p0 (Some L) (Some 0)
         = Inr ((if 2 * L \<le> int (length p0) then PASSTHROUGH (take (nat (2 * L)) p0) else INCOMPLETE), t', s1)"
      "counters s1 = counters ?s0" "tasks s1 = tasks ?s0" "t_kind t' = Multiline"
      "\<not> 2 * L \<le> int (length p0) \<longrightarrow> collecting t' header L 1 p0"
    by blast
  show ?thesis
  proof (cases "ps = []")
    case True
    then have full: "2 * L \<le> int (length p0)" using assms(7) by simp
    have run': "Multiline_run e ?s0 ?t0 p0 (Some L) (Some 0)
                  = Inr (PASSTHROUGH (take (nat (2 * L)) p0), t', s1)"
      using run(1) full by (simp only: if_True)
    from task_stage_complete [where w = w, OF st0 hex run' run(2,3,4) fl(2)]
    obtain s' where "task_stage e ?s0 header w p0 (Some L) (Some 0)
                       = Inr (Proceed (take (nat (2 * L)) p0) None None, s')"
        "tasks s' (hkey header) = None"
      by blast
    then show ?thesis using True task_stage_creates [OF assms(1), of e w p0 L 0]
      by (simp add: exchange_def consecutive_frames_def)
  next
    case False
    have part: "\<not> 2 * L \<le> int (length p0)"
      using assms(6) [rule_format, of 0] False by simp
    have run': "Multiline_run e ?s0 ?t0 p0 (Some L) (Some 0) = Inr (INCOMPLETE, t', s1)"
      using run(1) part by (simp only: if_False)
    from task_stage_incomplete [where w = w, OF st0 hex run' run(2,3)]
    obtain s2 where s2: "task_stage e ?s0 header w p0 (Some L) (Some 0) = Inr (Return None, s2)"
        "counters s2 = counters ?s0" "tasks s2 (hkey header) = Some t'"
      by blast
    have col: "collecting t' header L (int 1) p0" using run(5) part by simp
    have f: "flow_reply_ok (counters s2) header" "numeric_or_absent (counters s2) []"
      using fl s2(2) by simp_all
    have hx: "\<forall>p\<in>set ps. len_hex p \<noteq> 0" using assms(3) by simp
    have before: "\<forall>j<length ps. int (length (p0 @ concat (take j ps))) < 2 * L"
      using assms(6) by simp
    have total: "2 * L \<le> int (length (p0 @ concat ps))" using assms(7) by simp
    from feed_consecutive [where w = w and e = e, OF False assms(2) _ f s2(3) col hx before total]
    obtain s' where "feed e s2 header w (consecutive_frames 1 ps)
             = Inr (replicate (length ps - 1) (Return None)
                      @ [Proceed (take (nat (2 * L)) (p0 @ concat ps)) None None], s')"
        "tasks s' (hkey header) = None"
      by auto
    then show ?thesis using s2(1) False task_stage_creates [OF assms(1), of e w p0 L 0]
      by (cases ps) (simp_all add: exchange_def)
  qed
qed

theorem multiframe_reassembly_witness:
  "\<exists>s'. feed demo_env demo_state (PStr ''7E0'') True (exchange ''AA'' 9 (replicate 8 ''BB''))
           = Inr (replicate 8 (Return None) @ [Proceed ''AABBBBBBBBBBBBBBBB'' None None], s')
     \<and> tasks s' (PStr ''7E0'') = None"
proof -
  have a: "tasks demo_state (hkey (PStr ''7E0'')) = None" by (simp add: demo_state_def)
  have b: "(0::int) < 9" by simp
  have h: "len_hex ''AA'' \<noteq> 0" "len_hex ''BB'' \<noteq> 0" by code_simp+
  have c: "\<forall>p\<in>set (''AA'' # replicate 8 ''BB''). len_hex p \<noteq> 0" using h by simp
  have d: "flow_reply_ok (counters demo_state) (PStr ''7E0'')" by code_simp
  have f: "numeric_or_absent (counters demo_state) []" by (simp add: numeric_or_absent_def demo_state_def)
  have len: "length (concat (replicate m ''BB'')) = 2 * m" for m by (induction m) simp_all
  have g: "\<forall>j<length (replicate 8 ''BB''). int (length (concat (''AA'' # take j (replicate 8 ''BB'')))) < 2 * 9"
    by (simp add: len)
  have i: "2 * 9 \<le> int (length (concat (''AA'' # replicate 8 ''BB'')))" by (simp add: len)
  have r: "take 18 (concat (''AA'' # replicate 8 ''BB'')) = ''AABBBBBBBBBBBBBBBB''" by code_simp
  show ?thesis
    using multiframe_reassembly [OF a b c d f g i, of demo_env True] r
    by (simp add: hkey_def)
qed

end
